theory Spec2Isabelle
  imports Main
begin

section \<open>Outcomes of a call\<close>

text \<open>
  A call either returns a value (\<open>Inr\<close>) or ends in one of four ways (\<open>Inl\<close>):
  an exception leaves the function (\<open>Throw\<close>), an \<^verbatim>\<open>assert\<close> fails and aborts the
  program, \<^verbatim>\<open>std::terminate\<close> is called because an exception tried to leave a
  \<^verbatim>\<open>noexcept\<close> function, or the call reads or writes outside an allocated array,
  which C++ leaves undefined. Only \<open>Throw\<close> can be caught by the caller.
  The asserts are modelled as compiled in (no \<^verbatim>\<open>NDEBUG\<close>).
\<close>

datatype exception = out_of_range | bad_alloc

datatype error = Throw exception | AssertFailed | Terminate | UndefinedBehaviour

definition and_then :: "error + 'a \<Rightarrow> ('a \<Rightarrow> error + 'b) \<Rightarrow> error + 'b" where
  "and_then r f = (case r of Inl e \<Rightarrow> Inl e | Inr x \<Rightarrow> f x)"

definition assert :: "bool \<Rightarrow> error + unit" where
  "assert b = (if b then Inr () else Inl AssertFailed)"

text \<open>An exception that reaches the boundary of a \<^verbatim>\<open>noexcept\<close> function ends the program.\<close>

fun noexcept :: "error + 'a \<Rightarrow> error + 'a" where
  "noexcept (Inl (Throw e)) = Inl Terminate"
| "noexcept r = r"

definition catchable :: "error + 'a \<Rightarrow> bool" where
  "catchable r = (case r of Inl (Throw e) \<Rightarrow> True | _ \<Rightarrow> False)"

section \<open>Machine sizes and raw arrays\<close>

text \<open>
  \<^verbatim>\<open>size_t\<close> is taken as 64 bits wide: sizes are naturals and every arithmetic result is
  reduced by \<open>size_t\<close>. An array is the list of its elements; the null pointer is the
  empty list, since \<^verbatim>\<open>ArrayPtr\<close> never allocates an array of length zero. No object is
  larger than \<^verbatim>\<open>PTRDIFF_MAX\<close> bytes, so \<^verbatim>\<open>new Type[n]\<close> throws for a longer array.
  For a shorter array \<open>new_array\<close> returns, which is an idealisation: memory is finite
  and the limit counts bytes, so a program may throw \<^verbatim>\<open>std::bad_alloc\<close> for a much
  shorter array too. The general theorems therefore never say that an allocating call
  returns: they say that it throws \<^verbatim>\<open>std::bad_alloc\<close> or returns a stated result, and
  only the runs on a handful of elements are evaluated to a returned value.
\<close>

definition SIZE_MAX :: nat where
  "SIZE_MAX = 2 ^ 64 - 1"

definition PTRDIFF_MAX :: nat where
  "PTRDIFF_MAX = 2 ^ 63 - 1"

definition size_t :: "nat \<Rightarrow> nat" where
  "size_t n = n mod 2 ^ 64"

definition new_array :: "nat \<Rightarrow> error + 'a::default list" where
  "new_array n = (if PTRDIFF_MAX < n then Inl (Throw bad_alloc) else Inr (replicate n default))"

definition deref :: "'a list \<Rightarrow> nat \<Rightarrow> error + 'a" where
  "deref p i = (if i < length p then Inr (p ! i) else Inl UndefinedBehaviour)"

definition assign_at :: "'a list \<Rightarrow> nat \<Rightarrow> 'a \<Rightarrow> error + 'a list" where
  "assign_at p i x = (if i < length p then Inr (p[i := x]) else Inl UndefinedBehaviour)"

instantiation int :: default
begin
definition default_int :: int where
  "default_int = 0"
instance ..
end

subsection \<open>The algorithms of the standard library the container calls\<close>

text \<open>
  Positions are offsets into an array. \<open>std_copy\<close> copies between two different
  arrays; \<open>std_move_within\<close> and \<open>std_copy_backward\<close> work inside one array, where
  the ranges overlap and each write is seen by the later reads. Moving an element is
  modelled as copying it (the moved-from slot keeps its value).
\<close>

function std_fill :: "'a list \<Rightarrow> nat \<Rightarrow> nat \<Rightarrow> 'a \<Rightarrow> error + 'a list" where
  "std_fill p first last' v =
     (if first = last' then Inr p
      else case assign_at p first v of
             Inl e \<Rightarrow> Inl e
           | Inr p' \<Rightarrow> std_fill p' (Suc first) last' v)"
  by pat_completeness auto
termination
  by (relation "measure (\<lambda>(p, first, last', v). length p - first)")
     (auto simp: assign_at_def split: if_splits)

function std_copy :: "'a list \<Rightarrow> nat \<Rightarrow> nat \<Rightarrow> 'a list \<Rightarrow> nat \<Rightarrow> error + 'a list" where
  "std_copy src first last' dst d_first =
     (if first = last' then Inr dst
      else case deref src first of
             Inl e \<Rightarrow> Inl e
           | Inr x \<Rightarrow> (case assign_at dst d_first x of
                        Inl e \<Rightarrow> Inl e
                      | Inr dst' \<Rightarrow> std_copy src (Suc first) last' dst' (Suc d_first)))"
  by pat_completeness auto
termination
  by (relation "measure (\<lambda>(src, first, last', dst, d_first). length src - first)")
     (auto simp: deref_def split: if_splits)

function std_move_within :: "'a list \<Rightarrow> nat \<Rightarrow> nat \<Rightarrow> nat \<Rightarrow> error + 'a list" where
  "std_move_within p first last' d_first =
     (if first = last' then Inr p
      else case deref p first of
             Inl e \<Rightarrow> Inl e
           | Inr x \<Rightarrow> (case assign_at p d_first x of
                        Inl e \<Rightarrow> Inl e
                      | Inr p' \<Rightarrow> std_move_within p' (Suc first) last' (Suc d_first)))"
  by pat_completeness auto
termination
  by (relation "measure (\<lambda>(p, first, last', d_first). length p - first)")
     (auto simp: deref_def assign_at_def split: if_splits)

function std_copy_backward :: "'a list \<Rightarrow> nat \<Rightarrow> nat \<Rightarrow> nat \<Rightarrow> error + 'a list" where
  "std_copy_backward p first last' d_last =
     (if first = last' then Inr p
      else if last' = 0 \<or> d_last = 0 then Inl UndefinedBehaviour
      else case deref p (last' - 1) of
             Inl e \<Rightarrow> Inl e
           | Inr x \<Rightarrow> (case assign_at p (d_last - 1) x of
                        Inl e \<Rightarrow> Inl e
                      | Inr p' \<Rightarrow> std_copy_backward p' first (last' - 1) (d_last - 1)))"
  by pat_completeness auto
termination
  by (relation "measure (\<lambda>(p, first, last', d_last). last')") auto

function std_equal :: "'a list \<Rightarrow> nat \<Rightarrow> nat \<Rightarrow> 'a list \<Rightarrow> nat \<Rightarrow> error + bool" where
  "std_equal p1 first1 last1 p2 first2 =
     (if first1 = last1 then Inr True
      else case deref p1 first1 of
             Inl e \<Rightarrow> Inl e
           | Inr x \<Rightarrow> (case deref p2 first2 of
                        Inl e \<Rightarrow> Inl e
                      | Inr y \<Rightarrow> if \<not> (x = y) then Inr False
                                else std_equal p1 (Suc first1) last1 p2 (Suc first2)))"
  by pat_completeness auto
termination
  by (relation "measure (\<lambda>(p1, first1, last1, p2, first2). length p1 - first1)")
     (auto simp: deref_def split: if_splits)

function std_lexicographical_compare ::
  "('a::ord) list \<Rightarrow> nat \<Rightarrow> nat \<Rightarrow> 'a list \<Rightarrow> nat \<Rightarrow> nat \<Rightarrow> error + bool" where
  "std_lexicographical_compare p1 first1 last1 p2 first2 last2 =
     (if first1 \<noteq> last1 \<and> first2 \<noteq> last2 then
        case deref p1 first1 of
          Inl e \<Rightarrow> Inl e
        | Inr x \<Rightarrow> (case deref p2 first2 of
                     Inl e \<Rightarrow> Inl e
                   | Inr y \<Rightarrow> if x < y then Inr True
                             else if y < x then Inr False
                             else std_lexicographical_compare p1 (Suc first1) last1 p2 (Suc first2) last2)
      else Inr (first1 = last1 \<and> first2 \<noteq> last2))"
  by pat_completeness auto
termination
  by (relation "measure (\<lambda>(p1, first1, last1, p2, first2, last2). length p1 - first1)")
     (auto simp: deref_def split: if_splits)

section \<open>ArrayPtr: the owned buffer\<close>

text \<open>
  \<^verbatim>\<open>ArrayPtr\<close> holds one raw pointer, so a value of the model is the array the pointer
  owns (\<open>[]\<close> for \<^verbatim>\<open>nullptr\<close>). Copying is deleted in the source; the deallocation in
  the destructor has no effect on the values and is not modelled.
\<close>

type_synonym 'a ArrayPtr = "'a list"

definition ArrayPtr :: "nat \<Rightarrow> error + 'a::default ArrayPtr" where
  "ArrayPtr n = (if n \<noteq> 0 then new_array n else Inr [])"

definition Release :: "'a ArrayPtr \<Rightarrow> 'a list \<times> 'a ArrayPtr" where
  "Release p = (p, [])"

definition ArrayPtr_index :: "'a ArrayPtr \<Rightarrow> nat \<Rightarrow> error + 'a" where
  "ArrayPtr_index p index = deref p index"

definition ArrayPtr_swap :: "'a ArrayPtr \<Rightarrow> 'a ArrayPtr \<Rightarrow> 'a ArrayPtr \<times> 'a ArrayPtr" where
  "ArrayPtr_swap p other = (other, p)"

section \<open>SimpleVector\<close>

record 'a SimpleVector =
  items_m :: "'a ArrayPtr"
  size_m :: nat
  capacity_m :: nat

text \<open>The live elements: the first \<open>size_m\<close> slots of the buffer, \<open>[begin(), end())\<close>.\<close>

definition elements :: "'a SimpleVector \<Rightarrow> 'a list" where
  "elements v = take (size_m v) (items_m v)"

text \<open>
  The representation invariant. The buffer may be longer than the recorded capacity:
  move assignment hands the target's old buffer to the source and sets the source's
  capacity to zero.
\<close>

definition well_formed :: "'a SimpleVector \<Rightarrow> bool" where
  "well_formed v = (size_m v \<le> capacity_m v \<and> capacity_m v \<le> length (items_m v)
           \<and> length (items_m v) \<le> PTRDIFF_MAX)"

subsection \<open>Constructors\<close>

definition SimpleVector_default :: "'a SimpleVector" where
  "SimpleVector_default = \<lparr>items_m = [], size_m = 0, capacity_m = 0\<rparr>"

definition SimpleVector_fill :: "nat \<Rightarrow> 'a::default \<Rightarrow> error + 'a SimpleVector" where
  "SimpleVector_fill n val =
     and_then (ArrayPtr n) (\<lambda>items.
     and_then (std_fill items 0 (0 + n) val) (\<lambda>items'.
     Inr \<lparr>items_m = items', size_m = n, capacity_m = n\<rparr>))"

definition SimpleVector_sized :: "nat \<Rightarrow> error + 'a::default SimpleVector" where
  "SimpleVector_sized n = SimpleVector_fill n default"

definition SimpleVector_init :: "'a::default list \<Rightarrow> error + 'a SimpleVector" where
  "SimpleVector_init init =
     and_then (ArrayPtr (length init)) (\<lambda>items.
     and_then (std_copy init 0 (length init) items 0) (\<lambda>items'.
     Inr \<lparr>items_m = items', size_m = length init, capacity_m = length init\<rparr>))"

definition SimpleVector_copy :: "'a::default SimpleVector \<Rightarrow> error + 'a SimpleVector" where
  "SimpleVector_copy other =
     and_then (ArrayPtr (size_m other)) (\<lambda>items.
     and_then (std_copy (items_m other) 0 (0 + size_m other) items 0) (\<lambda>items'.
     Inr \<lparr>items_m = items', size_m = size_m other, capacity_m = size_m other\<rparr>))"

definition SimpleVector_reserved :: "nat \<Rightarrow> error + 'a::default SimpleVector" where
  "SimpleVector_reserved reserved_capacity =
     and_then (ArrayPtr reserved_capacity) (\<lambda>items.
     Inr \<lparr>items_m = items, size_m = 0, capacity_m = reserved_capacity\<rparr>)"

text \<open>
  The move constructor returns the new object and the state the source is left in.
  \<open>std::exchange (x, new)\<close> stores \<open>new\<close> in \<open>x\<close> and returns the old value.
\<close>

definition SimpleVector_move :: "'a SimpleVector \<Rightarrow> 'a SimpleVector \<times> 'a SimpleVector" where
  "SimpleVector_move other =
     (let (items, other1) = (items_m other, other\<lparr>items_m := []\<rparr>);
          (sz, other2) = (size_m other1, other1\<lparr>size_m := 0\<rparr>);
          (cap, other3) = (capacity_m other2, other2\<lparr>capacity_m := 0\<rparr>)
      in (\<lparr>items_m = items, size_m = sz, capacity_m = cap\<rparr>, other3))"

subsection \<open>Element access\<close>

text \<open>
  \<open>operator_index\<close> is the non-const \<^verbatim>\<open>operator[]\<close>, \<open>operator_index_const\<close> the
  const one; both are declared \<^verbatim>\<open>noexcept\<close>. The two overloads of \<^verbatim>\<open>At\<close> have the
  same body and are one function here. A returned reference is modelled by the value
  it refers to.
\<close>

definition operator_index :: "'a SimpleVector \<Rightarrow> nat \<Rightarrow> error + 'a" where
  "operator_index v index =
     noexcept (and_then (assert (index < size_m v)) (\<lambda>_. ArrayPtr_index (items_m v) index))"

definition operator_index_const :: "'a SimpleVector \<Rightarrow> nat \<Rightarrow> error + 'a" where
  "operator_index_const v index =
     noexcept (if index \<ge> size_m v then Inl (Throw out_of_range)
               else ArrayPtr_index (items_m v) index)"

definition At :: "'a SimpleVector \<Rightarrow> nat \<Rightarrow> error + 'a" where
  "At v index =
     (if index \<ge> size_m v then Inl (Throw out_of_range)
      else ArrayPtr_index (items_m v) index)"

definition GetSize :: "'a SimpleVector \<Rightarrow> nat" where
  "GetSize v = size_m v"

definition GetCapacity :: "'a SimpleVector \<Rightarrow> nat" where
  "GetCapacity v = capacity_m v"

definition IsEmpty :: "'a SimpleVector \<Rightarrow> bool" where
  "IsEmpty v = (size_m v = 0)"

subsection \<open>Capacity and size\<close>

definition Clear :: "'a SimpleVector \<Rightarrow> 'a SimpleVector" where
  "Clear v = v\<lparr>size_m := 0\<rparr>"

definition ReallocateMove :: "'a::default SimpleVector \<Rightarrow> nat \<Rightarrow> error + 'a ArrayPtr" where
  "ReallocateMove v new_capacity =
     and_then (ArrayPtr new_capacity) (\<lambda>new_items.
     let copy_size = min new_capacity (size_m v) in
     and_then (std_copy (items_m v) 0 (0 + copy_size) new_items 0) (\<lambda>new_items'.
     let (raw, released) = Release new_items' in Inr raw))"

function FillWithDefaultValue :: "'a::default list \<Rightarrow> nat \<Rightarrow> nat \<Rightarrow> error + 'a list" where
  "FillWithDefaultValue p from to =
     (if from \<noteq> to then
        case assign_at p from default of
          Inl e \<Rightarrow> Inl e
        | Inr p' \<Rightarrow> FillWithDefaultValue p' (Suc from) to
      else Inr p)"
  by pat_completeness auto
termination
  by (relation "measure (\<lambda>(p, from, to). length p - from)")
     (auto simp: assign_at_def split: if_splits)

definition Reserve :: "'a::default SimpleVector \<Rightarrow> nat \<Rightarrow> error + 'a SimpleVector" where
  "Reserve v new_capacity =
     (if new_capacity > capacity_m v then
        and_then (ReallocateMove v new_capacity) (\<lambda>new_items.
        let (items', new_items') = ArrayPtr_swap (items_m v) new_items in
        Inr (v\<lparr>items_m := items', capacity_m := new_capacity\<rparr>))
      else Inr v)"

definition Resize :: "'a::default SimpleVector \<Rightarrow> nat \<Rightarrow> error + 'a SimpleVector" where
  "Resize v new_size =
     and_then
       (if new_size > capacity_m v then
          let new_capacity = max (size_t (capacity_m v * 2)) new_size in
          and_then (ReallocateMove v new_capacity) (\<lambda>new_items.
          and_then (FillWithDefaultValue new_items (size_m v) new_size) (\<lambda>new_items1.
          let (items', new_items') = ArrayPtr_swap (items_m v) new_items1 in
          Inr (v\<lparr>items_m := items', capacity_m := new_capacity\<rparr>)))
        else if new_size > size_m v then
          and_then (assert (new_size \<le> capacity_m v)) (\<lambda>_.
          and_then (FillWithDefaultValue (items_m v) (size_m v) new_size) (\<lambda>items'.
          Inr (v\<lparr>items_m := items'\<rparr>)))
        else Inr v)
       (\<lambda>v'. Inr (v'\<lparr>size_m := new_size\<rparr>))"

subsection \<open>Adding and removing elements\<close>

text \<open>
  \<open>PushBack\<close> and \<open>Insert\<close> embed the overloads taking \<^verbatim>\<open>const Type&\<close>,
  \<open>PushBack_rvalue\<close> and \<open>Insert_rvalue\<close> the ones taking \<^verbatim>\<open>Type&&\<close>. An iterator
  is the offset of the slot it points to from \<^verbatim>\<open>begin()\<close>; \<open>Insert\<close> and \<open>Erase\<close>
  return the new state and the iterator. The element to add is a value of the model,
  that is, a reference to an object outside the vector. A call whose argument refers to
  an element of the same vector is not covered: on the path without reallocation
  \<^verbatim>\<open>Insert\<close> shifts the elements before it reads the argument, and would store the
  shifted element.
\<close>

definition PushBack :: "'a::default SimpleVector \<Rightarrow> 'a \<Rightarrow> error + 'a SimpleVector" where
  "PushBack v item =
     (let new_size = size_t (size_m v + 1) in
      and_then
        (if new_size > capacity_m v then
           let new_capacity = max (size_t (capacity_m v * 2)) new_size in
           and_then (ReallocateMove v new_capacity) (\<lambda>new_items.
           and_then (assign_at new_items (size_m v) item) (\<lambda>new_items1.
           let (items', new_items') = ArrayPtr_swap (items_m v) new_items1 in
           Inr (v\<lparr>capacity_m := new_capacity, items_m := items'\<rparr>)))
         else
           and_then (assign_at (items_m v) (size_m v) item) (\<lambda>items'.
           Inr (v\<lparr>items_m := items'\<rparr>)))
        (\<lambda>v'. Inr (v'\<lparr>size_m := new_size\<rparr>)))"

definition PushBack_rvalue :: "'a::default SimpleVector \<Rightarrow> 'a \<Rightarrow> error + 'a SimpleVector" where
  "PushBack_rvalue v item =
     (let new_size = size_t (size_m v + 1) in
      and_then
        (if new_size > capacity_m v then
           let new_capacity = max (size_t (capacity_m v * 2)) new_size in
           and_then (ReallocateMove v new_capacity) (\<lambda>new_items.
           and_then (assign_at new_items (size_m v) item) (\<lambda>new_items1.
           let (items', new_items') = ArrayPtr_swap (items_m v) new_items1 in
           Inr (v\<lparr>capacity_m := new_capacity, items_m := items'\<rparr>)))
         else
           and_then (assign_at (items_m v) (size_m v) item) (\<lambda>items'.
           Inr (v\<lparr>items_m := items'\<rparr>)))
        (\<lambda>v'. Inr (v'\<lparr>size_m := new_size\<rparr>)))"

definition size_t_pred :: "nat \<Rightarrow> nat" where
  "size_t_pred n = (if n = 0 then SIZE_MAX else n - 1)"

definition PopBack :: "'a SimpleVector \<Rightarrow> error + 'a SimpleVector" where
  "PopBack v =
     noexcept (and_then (assert (\<not> IsEmpty v)) (\<lambda>_.
               Inr (v\<lparr>size_m := size_t_pred (size_m v)\<rparr>)))"

definition Insert :: "'a::default SimpleVector \<Rightarrow> nat \<Rightarrow> 'a \<Rightarrow> error + 'a SimpleVector \<times> nat" where
  "Insert v pos val =
     and_then (assert (0 \<le> pos \<and> pos \<le> size_m v)) (\<lambda>_.
     let new_size = size_t (size_m v + 1);
         new_item_offset = pos - 0 in
     and_then
       (if new_size \<le> capacity_m v then
          let mutable_pos = 0 + new_item_offset in
          and_then (std_copy_backward (items_m v) pos (size_m v) (size_m v + 1)) (\<lambda>items1.
          and_then (assign_at items1 mutable_pos val) (\<lambda>items2.
          Inr (v\<lparr>items_m := items2\<rparr>)))
        else
          let new_capacity = max (size_t (capacity_m v * 2)) new_size in
          and_then (ArrayPtr new_capacity) (\<lambda>new_items.
          let new_items_pos = 0 + new_item_offset in
          and_then (std_copy (items_m v) 0 pos new_items 0) (\<lambda>new_items1.
          and_then (assign_at new_items1 new_items_pos val) (\<lambda>new_items2.
          and_then (std_copy (items_m v) pos (size_m v) new_items2 (new_items_pos + 1)) (\<lambda>new_items3.
          let (items', new_items') = ArrayPtr_swap (items_m v) new_items3 in
          Inr (v\<lparr>items_m := items', capacity_m := new_capacity\<rparr>))))))
       (\<lambda>v'. Inr (v'\<lparr>size_m := new_size\<rparr>, 0 + new_item_offset)))"

definition Insert_rvalue :: "'a::default SimpleVector \<Rightarrow> nat \<Rightarrow> 'a \<Rightarrow> error + 'a SimpleVector \<times> nat" where
  "Insert_rvalue v pos val =
     and_then (assert (0 \<le> pos \<and> pos \<le> size_m v)) (\<lambda>_.
     let new_size = size_t (size_m v + 1);
         new_item_offset = pos - 0;
         mutable_pos = 0 + new_item_offset in
     and_then
       (if new_size \<le> capacity_m v then
          and_then (std_copy_backward (items_m v) mutable_pos (size_m v) (size_m v + 1)) (\<lambda>items1.
          and_then (assign_at items1 mutable_pos val) (\<lambda>items2.
          Inr (v\<lparr>items_m := items2\<rparr>)))
        else
          let new_capacity = max (size_t (capacity_m v * 2)) new_size in
          and_then (ArrayPtr new_capacity) (\<lambda>new_items.
          let new_items_pos = 0 + new_item_offset in
          and_then (std_copy (items_m v) 0 mutable_pos new_items 0) (\<lambda>new_items1.
          and_then (assign_at new_items1 new_items_pos val) (\<lambda>new_items2.
          and_then (std_copy (items_m v) mutable_pos (size_m v) new_items2 (new_items_pos + 1)) (\<lambda>new_items3.
          let (items', new_items') = ArrayPtr_swap (items_m v) new_items3 in
          Inr (v\<lparr>items_m := items', capacity_m := new_capacity\<rparr>))))))
       (\<lambda>v'. Inr (v'\<lparr>size_m := new_size\<rparr>, 0 + new_item_offset)))"

definition Erase :: "'a SimpleVector \<Rightarrow> nat \<Rightarrow> error + 'a SimpleVector \<times> nat" where
  "Erase v pos =
     and_then (assert (0 \<le> pos \<and> pos < size_m v)) (\<lambda>_.
     let mutable_pos = 0 + (pos - 0) in
     and_then (std_move_within (items_m v) (mutable_pos + 1) (size_m v) mutable_pos) (\<lambda>items'.
     Inr (v\<lparr>items_m := items', size_m := size_t_pred (size_m v)\<rparr>, mutable_pos)))"

subsection \<open>Operations on two objects\<close>

text \<open>
  Assignment and \<open>swap\<close> take two references that may name the same object, so they
  work on a store: a function from references to objects. Each write to a member is an
  update of the store, in the order of the source, and a later read sees it.
  \<open>std_swap\<close> and \<open>std_exchange\<close> act on one member, given by its selector and its
  update function.
\<close>

type_synonym ('r, 'a) store = "'r \<Rightarrow> 'a SimpleVector"

definition std_swap ::
  "('o \<Rightarrow> 'f) \<Rightarrow> ('f \<Rightarrow> 'o \<Rightarrow> 'o) \<Rightarrow> 'r \<Rightarrow> 'r \<Rightarrow> ('r \<Rightarrow> 'o) \<Rightarrow> ('r \<Rightarrow> 'o)" where
  "std_swap get put a b s =
     (let tmp = get (s a);
          s1 = s(a := put (get (s b)) (s a));
          s2 = s1(b := put tmp (s1 b))
      in s2)"

definition std_exchange ::
  "('o \<Rightarrow> 'f) \<Rightarrow> ('f \<Rightarrow> 'o \<Rightarrow> 'o) \<Rightarrow> 'r \<Rightarrow> 'f \<Rightarrow> ('r \<Rightarrow> 'o) \<Rightarrow> 'f \<times> ('r \<Rightarrow> 'o)" where
  "std_exchange get put obj new_value s =
     (let old_value = get (s obj);
          s1 = s(obj := put new_value (s obj))
      in (old_value, s1))"

definition put_items :: "'a ArrayPtr \<Rightarrow> 'a SimpleVector \<Rightarrow> 'a SimpleVector" where
  "put_items x v = v\<lparr>items_m := x\<rparr>"

definition put_size :: "nat \<Rightarrow> 'a SimpleVector \<Rightarrow> 'a SimpleVector" where
  "put_size x v = v\<lparr>size_m := x\<rparr>"

definition put_capacity :: "nat \<Rightarrow> 'a SimpleVector \<Rightarrow> 'a SimpleVector" where
  "put_capacity x v = v\<lparr>capacity_m := x\<rparr>"

definition swap :: "'r \<Rightarrow> 'r \<Rightarrow> ('r, 'a) store \<Rightarrow> ('r, 'a) store" where
  "swap this other s =
     (let s1 = std_swap items_m put_items this other s;
          s2 = std_swap size_m put_size this other s1;
          s3 = std_swap capacity_m put_capacity this other s2
      in s3)"

text \<open>
  In copy assignment the local \<^verbatim>\<open>rhs_copy\<close> is a new object: the store is extended by
  the reference \<open>None\<close> for it, and the extension is dropped when the block ends.
\<close>

definition copy_assign :: "'r \<Rightarrow> 'r \<Rightarrow> ('r, 'a::default) store \<Rightarrow> error + ('r, 'a) store" where
  "copy_assign this rhs s =
     (if rhs \<noteq> this then
        if IsEmpty (s rhs) then Inr (s(this := Clear (s this)))
        else
          and_then (SimpleVector_copy (s rhs)) (\<lambda>rhs_copy.
          let frame = (\<lambda>r. case r of None \<Rightarrow> rhs_copy | Some r' \<Rightarrow> s r');
              frame' = swap (Some this) None frame
          in Inr (\<lambda>r. frame' (Some r)))
      else Inr s)"

text \<open>
  Move assignment of the buffer is \<^verbatim>\<open>ArrayPtr::operator=(ArrayPtr&&)\<close>, which swaps
  the two raw pointers.
\<close>

definition move_assign :: "'r \<Rightarrow> 'r \<Rightarrow> ('r, 'a) store \<Rightarrow> ('r, 'a) store" where
  "move_assign this other s =
     (let s1 = std_swap items_m put_items this other s;
          (old_size, s2) = std_exchange size_m put_size other 0 s1;
          s3 = s2(this := put_size old_size (s2 this));
          (old_capacity, s4) = std_exchange capacity_m put_capacity other 0 s3;
          s5 = s4(this := put_capacity old_capacity (s4 this))
      in s5)"

subsection \<open>Comparison\<close>

definition operator_eq :: "'a SimpleVector \<Rightarrow> 'a SimpleVector \<Rightarrow> error + bool" where
  "operator_eq lhs rhs =
     (if GetSize lhs = GetSize rhs
      then std_equal (items_m lhs) 0 (0 + size_m lhs) (items_m rhs) 0
      else Inr False)"

definition operator_neq :: "'a SimpleVector \<Rightarrow> 'a SimpleVector \<Rightarrow> error + bool" where
  "operator_neq lhs rhs = and_then (operator_eq lhs rhs) (\<lambda>b. Inr (\<not> b))"

definition operator_less :: "('a::ord) SimpleVector \<Rightarrow> 'a SimpleVector \<Rightarrow> error + bool" where
  "operator_less lhs rhs =
     std_lexicographical_compare (items_m lhs) 0 (0 + size_m lhs) (items_m rhs) 0 (0 + size_m rhs)"

definition operator_greater :: "('a::ord) SimpleVector \<Rightarrow> 'a SimpleVector \<Rightarrow> error + bool" where
  "operator_greater lhs rhs = operator_less rhs lhs"

definition operator_le :: "('a::ord) SimpleVector \<Rightarrow> 'a SimpleVector \<Rightarrow> error + bool" where
  "operator_le lhs rhs = and_then (operator_less rhs lhs) (\<lambda>b. Inr (\<not> b))"

definition operator_ge :: "('a::ord) SimpleVector \<Rightarrow> 'a SimpleVector \<Rightarrow> error + bool" where
  "operator_ge lhs rhs = operator_le rhs lhs"

subsection \<open>A sequence of calls of PushBack\<close>

text \<open>\<open>PushBack_all v xs\<close> calls \<^verbatim>\<open>PushBack\<close> with each element of \<open>xs\<close> in turn.\<close>

fun PushBack_all :: "'a::default SimpleVector \<Rightarrow> 'a list \<Rightarrow> error + 'a SimpleVector" where
  "PushBack_all v [] = Inr v"
| "PushBack_all v (x # xs) =
     (case PushBack v x of Inl e \<Rightarrow> Inl e | Inr v' \<Rightarrow> PushBack_all v' xs)"

section \<open>Basic facts about the model\<close>

lemma and_then_Inr [simp]: "and_then (Inr x) f = f x"
  by (simp add: and_then_def)

lemma and_then_Inl [simp]: "and_then (Inl e) f = Inl e"
  by (simp add: and_then_def)

lemma and_then_eq_Inr:
  "and_then r f = Inr y \<longleftrightarrow> (\<exists>x. r = Inr x \<and> f x = Inr y)"
  by (cases r) simp_all

declare std_fill.simps [simp del] std_copy.simps [simp del] std_move_within.simps [simp del]
  std_copy_backward.simps [simp del] std_equal.simps [simp del]
  std_lexicographical_compare.simps [simp del] FillWithDefaultValue.simps [simp del]

lemma std_fill_eq:
  "first \<le> last' \<Longrightarrow> last' \<le> length p \<Longrightarrow>
   std_fill p first last' v = Inr (take first p @ replicate (last' - first) v @ drop last' p)"
proof (induction "last' - first" arbitrary: p first)
  case 0
  then show ?case by (simp add: std_fill.simps)
next
  case (Suc n)
  from Suc.hyps(2) Suc.prems have lt: "first < last'" "first < length p" by auto
  have n: "n = last' - Suc first" using Suc.hyps(2) by simp
  let ?p = "p[first := v]"
  have unfold: "std_fill p first last' v = std_fill ?p (Suc first) last' v"
    using lt by (subst std_fill.simps) (simp add: assign_at_def)
  have rest: "std_fill ?p (Suc first) last' v
      = Inr (take (Suc first) ?p @ replicate (last' - Suc first) v @ drop last' ?p)"
    by (rule Suc.hyps(1)) (use n lt Suc.prems in simp_all)
  have a: "take (Suc first) ?p = take first p @ [v]"
    using lt by (simp add: take_Suc_conv_app_nth)
  have b: "drop last' ?p = drop last' p"
    using lt by simp
  have c: "replicate (last' - first) v = v # replicate (last' - Suc first) v"
    using lt by (metis Suc_diff_Suc replicate_Suc)
  show ?case by (simp add: unfold rest a b c)
qed

lemma FillWithDefaultValue_eq:
  "from \<le> to \<Longrightarrow> to \<le> length p \<Longrightarrow>
   FillWithDefaultValue p from to = Inr (take from p @ replicate (to - from) default @ drop to p)"
proof (induction "to - from" arbitrary: p "from")
  case 0
  then show ?case by (simp add: FillWithDefaultValue.simps)
next
  case (Suc n)
  from Suc.hyps(2) Suc.prems have lt: "from < to" "from < length p" by auto
  have n: "n = to - Suc from" using Suc.hyps(2) by simp
  let ?p = "p[from := default]"
  have unfold: "FillWithDefaultValue p from to = FillWithDefaultValue ?p (Suc from) to"
    using lt by (subst FillWithDefaultValue.simps) (simp add: assign_at_def)
  have rest: "FillWithDefaultValue ?p (Suc from) to
      = Inr (take (Suc from) ?p @ replicate (to - Suc from) default @ drop to ?p)"
    by (rule Suc.hyps(1)) (use n lt Suc.prems in simp_all)
  have a: "take (Suc from) ?p = take from p @ [default]"
    using lt by (simp add: take_Suc_conv_app_nth)
  have b: "drop to ?p = drop to p"
    using lt by simp
  have c: "replicate (to - from) default = default # replicate (to - Suc from) (default::'a)"
    using lt by (metis Suc_diff_Suc replicate_Suc)
  show ?case by (simp add: unfold rest a b c)
qed

lemma std_copy_eq:
  "first \<le> last' \<Longrightarrow> last' \<le> length src \<Longrightarrow> d_first + (last' - first) \<le> length dst \<Longrightarrow>
   std_copy src first last' dst d_first =
     Inr (take d_first dst @ take (last' - first) (drop first src)
          @ drop (d_first + (last' - first)) dst)"
proof (induction "last' - first" arbitrary: dst first d_first)
  case 0
  then show ?case by (simp add: std_copy.simps)
next
  case (Suc n)
  from Suc.hyps(2) Suc.prems
  have lt: "first < last'" "first < length src" "d_first < length dst" by auto
  have n: "n = last' - Suc first" using Suc.hyps(2) by simp
  let ?dst = "dst[d_first := src ! first]"
  have unfold: "std_copy src first last' dst d_first
      = std_copy src (Suc first) last' ?dst (Suc d_first)"
    using lt by (subst std_copy.simps) (simp add: assign_at_def deref_def)
  have rest: "std_copy src (Suc first) last' ?dst (Suc d_first)
      = Inr (take (Suc d_first) ?dst @ take (last' - Suc first) (drop (Suc first) src)
             @ drop (Suc d_first + (last' - Suc first)) ?dst)"
    by (rule Suc.hyps(1)) (use n lt Suc.prems in simp_all)
  have a: "take (Suc d_first) ?dst = take d_first dst @ [src ! first]"
    using lt by (simp add: take_Suc_conv_app_nth)
  have b: "Suc d_first + (last' - Suc first) = d_first + (last' - first)"
    using lt by arith
  have c: "drop (d_first + (last' - first)) ?dst = drop (d_first + (last' - first)) dst"
    using lt by simp
  have d: "take (last' - first) (drop first src)
      = src ! first # take (last' - Suc first) (drop (Suc first) src)"
    using lt by (metis Cons_nth_drop_Suc Suc_diff_Suc take_Suc_Cons)
  show ?case by (simp only: unfold rest a b c d) simp
qed

lemma std_move_within_eq:
  "first \<le> last' \<Longrightarrow> last' \<le> length p \<Longrightarrow> d_first \<le> first \<Longrightarrow>
   std_move_within p first last' d_first =
     Inr (take d_first p @ take (last' - first) (drop first p)
          @ drop (d_first + (last' - first)) p)"
proof (induction "last' - first" arbitrary: p first d_first)
  case 0
  then show ?case by (simp add: std_move_within.simps)
next
  case (Suc n)
  from Suc.hyps(2) Suc.prems
  have lt: "first < last'" "first < length p" "d_first < length p" by auto
  have n: "n = last' - Suc first" using Suc.hyps(2) by simp
  let ?p = "p[d_first := p ! first]"
  have unfold: "std_move_within p first last' d_first
      = std_move_within ?p (Suc first) last' (Suc d_first)"
    using lt by (subst std_move_within.simps) (simp add: assign_at_def deref_def)
  have rest: "std_move_within ?p (Suc first) last' (Suc d_first)
      = Inr (take (Suc d_first) ?p @ take (last' - Suc first) (drop (Suc first) ?p)
             @ drop (Suc d_first + (last' - Suc first)) ?p)"
    by (rule Suc.hyps(1)) (use n lt Suc.prems in simp_all)
  have a: "take (Suc d_first) ?p = take d_first p @ [p ! first]"
    using lt by (simp add: take_Suc_conv_app_nth)
  have a': "drop (Suc first) ?p = drop (Suc first) p"
    using Suc.prems by simp
  have b: "Suc d_first + (last' - Suc first) = d_first + (last' - first)"
    using lt by arith
  have c: "drop (d_first + (last' - first)) ?p = drop (d_first + (last' - first)) p"
    using lt by simp
  have d: "take (last' - first) (drop first p)
      = p ! first # take (last' - Suc first) (drop (Suc first) p)"
    using lt by (metis Cons_nth_drop_Suc Suc_diff_Suc take_Suc_Cons)
  show ?case by (simp only: unfold rest a a' b c d) simp
qed

lemma std_copy_backward_eq:
  "first \<le> last' \<Longrightarrow> last' \<le> d_last \<Longrightarrow> d_last \<le> length p \<Longrightarrow>
   std_copy_backward p first last' d_last =
     Inr (take (d_last - (last' - first)) p @ take (last' - first) (drop first p)
          @ drop d_last p)"
proof (induction "last' - first" arbitrary: p last' d_last)
  case 0
  then show ?case by (simp add: std_copy_backward.simps)
next
  case (Suc n)
  from Suc.hyps(2) Suc.prems
  have lt: "first < last'" "0 < last'" "0 < d_last" "last' - 1 < length p" "d_last - 1 < length p"
    by auto
  have n: "n = (last' - 1) - first" using Suc.hyps(2) by simp
  let ?p = "p[d_last - 1 := p ! (last' - 1)]"
  have unfold: "std_copy_backward p first last' d_last
        = std_copy_backward ?p first (last' - 1) (d_last - 1)"
    using lt by (subst std_copy_backward.simps) (simp add: assign_at_def deref_def)
  have rest: "std_copy_backward ?p first (last' - 1) (d_last - 1)
      = Inr (take (d_last - 1 - (last' - 1 - first)) ?p
             @ take (last' - 1 - first) (drop first ?p) @ drop (d_last - 1) ?p)"
    by (rule Suc.hyps(1)) (use n lt Suc.prems in simp_all)
  have a: "d_last - 1 - (last' - 1 - first) = d_last - (last' - first)"
    using lt Suc.prems by arith
  have a': "take (d_last - (last' - first)) ?p = take (d_last - (last' - first)) p"
    using lt Suc.prems by simp
  have b: "take (last' - 1 - first) (drop first ?p) = take (last' - 1 - first) (drop first p)"
  proof (rule nth_equalityI)
    show "length (take (last' - 1 - first) (drop first ?p))
        = length (take (last' - 1 - first) (drop first p))" by simp
  next
    fix i assume "i < length (take (last' - 1 - first) (drop first ?p))"
    then have "i < last' - 1 - first" "first + i < length p" by auto
    then show "take (last' - 1 - first) (drop first ?p) ! i
             = take (last' - 1 - first) (drop first p) ! i"
      using Suc.prems by simp
  qed
  have c: "drop (d_last - 1) ?p = p ! (last' - 1) # drop d_last p"
  proof -
    obtain k where k: "d_last = Suc k" using lt by (cases d_last) auto
    have "drop k (p[k := p ! (last' - 1)]) = p[k := p ! (last' - 1)] ! k # drop (Suc k) (p[k := p ! (last' - 1)])"
      using lt k by (intro Cons_nth_drop_Suc[symmetric]) simp
    then show ?thesis using lt k by simp
  qed
  have d: "take (last' - first) (drop first p)
      = take (last' - 1 - first) (drop first p) @ [p ! (last' - 1)]"
  proof -
    have "last' - first = Suc (last' - 1 - first)"
      using lt by arith
    then have "take (last' - first) (drop first p) = take (Suc (last' - 1 - first)) (drop first p)"
      by (rule arg_cong)
    also have "\<dots> = take (last' - 1 - first) (drop first p) @ [drop first p ! (last' - 1 - first)]"
      using lt Suc.prems by (intro take_Suc_conv_app_nth) simp
    also have "drop first p ! (last' - 1 - first) = p ! (last' - 1)"
      using lt Suc.prems by simp
    finally show ?thesis .
  qed
  show ?case by (simp only: unfold rest a a' b c d) simp
qed

section \<open>What each operation computes on a well-formed vector\<close>

lemma well_formed_no_wrap:
  assumes "well_formed v"
  shows "size_t (size_m v + 1) = size_m v + 1" and "size_t (capacity_m v * 2) = capacity_m v * 2"
    and "size_t (Suc (size_m v)) = Suc (size_m v)"
  using assms by (simp_all add: well_formed_def size_t_def PTRDIFF_MAX_def)

lemma ArrayPtr_eq:
  "ArrayPtr n = (if PTRDIFF_MAX < n then Inl (Throw bad_alloc) else Inr (replicate n default))"
  by (simp add: ArrayPtr_def new_array_def PTRDIFF_MAX_def)

lemma ReallocateMove_eq:
  assumes "size_m v \<le> length (items_m v)"
  shows "ReallocateMove v n =
     (if PTRDIFF_MAX < n then Inl (Throw bad_alloc)
      else Inr (take (min n (size_m v)) (items_m v) @ replicate (n - min n (size_m v)) default))"
  using assms
  by (simp add: ReallocateMove_def ArrayPtr_eq Let_def std_copy_eq Release_def min_def)

lemma Reserve_eq:
  assumes "well_formed v"
  shows "Reserve v n =
     (if n > capacity_m v then
        if PTRDIFF_MAX < n then Inl (Throw bad_alloc)
        else Inr (v\<lparr>items_m := take (size_m v) (items_m v) @ replicate (n - size_m v) default,
                     capacity_m := n\<rparr>)
      else Inr v)"
  using assms
  by (simp add: Reserve_def ReallocateMove_eq ArrayPtr_swap_def well_formed_def min_def)

lemma PushBack_eq:
  assumes "well_formed v"
  shows "PushBack v x =
     (if size_m v + 1 > capacity_m v then
        if PTRDIFF_MAX < max (capacity_m v * 2) (size_m v + 1) then Inl (Throw bad_alloc)
        else Inr (v\<lparr>capacity_m := max (capacity_m v * 2) (size_m v + 1),
                     items_m := take (size_m v) (items_m v) @ [x]
                        @ replicate (max (capacity_m v * 2) (size_m v + 1) - size_m v - 1) default,
                     size_m := size_m v + 1\<rparr>)
      else Inr (v\<lparr>items_m := (items_m v)[size_m v := x], size_m := size_m v + 1\<rparr>))"
proof -
  note nw = well_formed_no_wrap[OF assms]
  have le: "size_m v \<le> length (items_m v)" "size_m v \<le> capacity_m v"
    "capacity_m v \<le> length (items_m v)" using assms by (auto simp: well_formed_def)
  define nc where "nc = max (capacity_m v * 2) (size_m v + 1)"
  have sz: "size_m v < nc" by (simp add: nc_def)
  show ?thesis
  proof (cases "size_m v + 1 > capacity_m v")
    case True
    have rm: "ReallocateMove v nc =
        (if PTRDIFF_MAX < nc then Inl (Throw bad_alloc)
         else Inr (take (size_m v) (items_m v) @ replicate (nc - size_m v) default))"
      using sz by (simp add: ReallocateMove_eq[OF le(1)] min_absorb2)
    have upd: "(take (size_m v) (items_m v) @ replicate (nc - size_m v) default)[size_m v := x]
       = take (size_m v) (items_m v) @ [x] @ replicate (nc - size_m v - 1) default"
      using le sz by (cases "nc - size_m v") (simp_all add: list_update_append)
    have "PushBack v x =
        and_then (and_then (ReallocateMove v nc) (\<lambda>new_items.
           and_then (assign_at new_items (size_m v) x) (\<lambda>new_items1.
           Inr (v\<lparr>capacity_m := nc, items_m := new_items1\<rparr>))))
          (\<lambda>v'. Inr (v'\<lparr>size_m := size_m v + 1\<rparr>))"
      using True by (simp add: PushBack_def nw Let_def ArrayPtr_swap_def nc_def)
    also have "\<dots> = (if PTRDIFF_MAX < nc then Inl (Throw bad_alloc)
        else Inr (v\<lparr>capacity_m := nc,
                     items_m := take (size_m v) (items_m v) @ [x]
                        @ replicate (nc - size_m v - 1) default,
                     size_m := size_m v + 1\<rparr>))"
      using le sz upd by (simp add: rm assign_at_def)
    finally show ?thesis using True by (simp add: nc_def)
  next
    case False
    then show ?thesis using le
      by (simp add: PushBack_def nw Let_def assign_at_def)
  qed
qed

lemma PushBack_rvalue_eq: "PushBack_rvalue v x = PushBack v x"
  by (simp add: PushBack_rvalue_def PushBack_def)

lemma Insert_rvalue_eq: "Insert_rvalue v pos x = Insert v pos x"
  by (simp add: Insert_rvalue_def Insert_def Let_def)

lemma Resize_eq:
  assumes "well_formed v"
  shows "Resize v n =
     (if n > capacity_m v then
        if PTRDIFF_MAX < max (capacity_m v * 2) n then Inl (Throw bad_alloc)
        else Inr (v\<lparr>items_m := take (size_m v) (items_m v) @ replicate (n - size_m v) default
                        @ replicate (max (capacity_m v * 2) n - n) default,
                     capacity_m := max (capacity_m v * 2) n, size_m := n\<rparr>)
      else if n > size_m v then
        Inr (v\<lparr>items_m := take (size_m v) (items_m v) @ replicate (n - size_m v) default
                       @ drop n (items_m v), size_m := n\<rparr>)
      else Inr (v\<lparr>size_m := n\<rparr>))"
proof -
  note nw = well_formed_no_wrap[OF assms]
  have le: "size_m v \<le> length (items_m v)" "size_m v \<le> capacity_m v"
    "capacity_m v \<le> length (items_m v)" using assms by (auto simp: well_formed_def)
  define nc where "nc = max (capacity_m v * 2) n"
  show ?thesis
  proof (cases "n > capacity_m v")
    case True
    have sz: "size_m v < n" "n \<le> nc" "size_m v \<le> nc" using True le by (auto simp: nc_def)
    have rm: "ReallocateMove v nc =
        (if PTRDIFF_MAX < nc then Inl (Throw bad_alloc)
         else Inr (take (size_m v) (items_m v) @ replicate (nc - size_m v) default))"
      using sz by (simp add: ReallocateMove_eq[OF le(1)] min_absorb2)
    have fill: "FillWithDefaultValue
           (take (size_m v) (items_m v) @ replicate (nc - size_m v) default) (size_m v) n
        = Inr (take (size_m v) (items_m v) @ replicate (n - size_m v) default
               @ replicate (nc - n) default)"
      using sz le by (subst FillWithDefaultValue_eq) (simp_all add: min_absorb2)
    have "Resize v n =
        and_then (and_then (ReallocateMove v nc) (\<lambda>new_items.
           and_then (FillWithDefaultValue new_items (size_m v) n) (\<lambda>new_items1.
           Inr (v\<lparr>items_m := new_items1, capacity_m := nc\<rparr>))))
          (\<lambda>v'. Inr (v'\<lparr>size_m := n\<rparr>))"
      using True by (simp add: Resize_def nw Let_def ArrayPtr_swap_def nc_def)
    also have "\<dots> = (if PTRDIFF_MAX < nc then Inl (Throw bad_alloc)
        else Inr (v\<lparr>items_m := take (size_m v) (items_m v) @ replicate (n - size_m v) default
                        @ replicate (nc - n) default,
                     capacity_m := nc, size_m := n\<rparr>))"
      by (simp add: rm fill)
    finally show ?thesis using True by (simp add: nc_def)
  next
    case False
    then show ?thesis using le
      by (simp add: Resize_def nw Let_def FillWithDefaultValue_eq assert_def)
  qed
qed

lemma Insert_assert:
  "size_m v < pos \<Longrightarrow> Insert v pos x = Inl AssertFailed"
  by (simp add: Insert_def assert_def)

lemma Insert_eq:
  assumes "well_formed v" and "pos \<le> size_m v"
  shows "Insert v pos x =
     (if size_m v + 1 \<le> capacity_m v then
        Inr (v\<lparr>items_m := take pos (items_m v) @ [x] @ take (size_m v - pos) (drop pos (items_m v))
                       @ drop (size_m v + 1) (items_m v),
               size_m := size_m v + 1\<rparr>, pos)
      else if PTRDIFF_MAX < max (capacity_m v * 2) (size_m v + 1) then Inl (Throw bad_alloc)
      else
        Inr (v\<lparr>items_m := take pos (items_m v) @ [x] @ take (size_m v - pos) (drop pos (items_m v))
                       @ replicate (max (capacity_m v * 2) (size_m v + 1) - size_m v - 1) default,
               capacity_m := max (capacity_m v * 2) (size_m v + 1),
               size_m := size_m v + 1\<rparr>, pos))"
proof -
  note nw = well_formed_no_wrap[OF assms(1)]
  have le: "size_m v \<le> length (items_m v)" "size_m v \<le> capacity_m v"
    "capacity_m v \<le> length (items_m v)" using assms by (auto simp: well_formed_def)
  define nc where "nc = max (capacity_m v * 2) (size_m v + 1)"
  define xs where "xs = items_m v"
  define n where "n = size_m v"
  have pn: "pos \<le> n" "n \<le> length xs" using assms le by (simp_all add: n_def xs_def)
  show ?thesis
  proof (cases "size_m v + 1 \<le> capacity_m v")
    case True
    then have n1: "n + 1 \<le> length xs" using le by (simp add: n_def xs_def)
    have cb: "std_copy_backward xs pos n (n + 1)
        = Inr (take (pos + 1) xs @ take (n - pos) (drop pos xs) @ drop (n + 1) xs)"
      using pn n1 by (subst std_copy_backward_eq) simp_all
    have upd: "(take (pos + 1) xs @ take (n - pos) (drop pos xs) @ drop (n + 1) xs)[pos := x]
        = take pos xs @ [x] @ take (n - pos) (drop pos xs) @ drop (n + 1) xs"
      using pn n1 by (simp add: list_update_append take_Suc_conv_app_nth)
    have "Insert v pos x =
        and_then (and_then (std_copy_backward xs pos n (n + 1)) (\<lambda>items1.
           and_then (assign_at items1 pos x) (\<lambda>items2. Inr (v\<lparr>items_m := items2\<rparr>))))
          (\<lambda>v'. Inr (v'\<lparr>size_m := n + 1\<rparr>, pos))"
      using True assms(2)
      by (simp add: Insert_def nw Let_def assert_def xs_def n_def)
    also have "\<dots> = Inr (v\<lparr>items_m := take pos xs @ [x] @ take (n - pos) (drop pos xs)
                                  @ drop (n + 1) xs, size_m := n + 1\<rparr>, pos)"
      using pn n1 upd cb by (simp add: assign_at_def)
    finally show ?thesis using True by (simp add: xs_def n_def)
  next
    case False
    have sz: "n < nc" by (simp add: nc_def n_def)
    have "Insert v pos x =
        and_then (and_then (ArrayPtr nc) (\<lambda>new_items.
           and_then (std_copy xs 0 pos new_items 0) (\<lambda>new_items1.
           and_then (assign_at new_items1 pos x) (\<lambda>new_items2.
           and_then (std_copy xs pos n new_items2 (pos + 1)) (\<lambda>new_items3.
           Inr (v\<lparr>items_m := new_items3, capacity_m := nc\<rparr>))))))
          (\<lambda>v'. Inr (v'\<lparr>size_m := n + 1\<rparr>, pos))"
      using False assms(2)
      by (simp add: Insert_def nw Let_def assert_def xs_def n_def nc_def ArrayPtr_swap_def)
    also have "\<dots> = (if PTRDIFF_MAX < nc then Inl (Throw bad_alloc)
        else Inr (v\<lparr>items_m := take pos xs @ [x] @ take (n - pos) (drop pos xs)
                        @ replicate (nc - n - 1) default,
                     capacity_m := nc, size_m := n + 1\<rparr>, pos))"
    proof (cases "PTRDIFF_MAX < nc")
      case True
      then show ?thesis by (simp add: ArrayPtr_eq)
    next
      case ok: False
      let ?a0 = "replicate nc (default::'a)"
      let ?a1 = "take pos xs @ replicate (nc - pos) default"
      let ?a2 = "take pos xs @ [x] @ replicate (nc - pos - 1) default"
      let ?a3 = "take pos xs @ [x] @ take (n - pos) (drop pos xs) @ replicate (nc - n - 1) default"
      have c1: "std_copy xs 0 pos ?a0 0 = Inr ?a1"
        using pn sz by (subst std_copy_eq) simp_all
      have c2: "assign_at ?a1 pos x = Inr ?a2"
        using pn sz by (cases "nc - pos") (simp_all add: assign_at_def list_update_append)
      have "std_copy xs pos n ?a2 (pos + 1)
          = Inr (take (pos + 1) ?a2 @ take (n - pos) (drop pos xs)
                 @ drop (pos + 1 + (n - pos)) ?a2)"
        using pn sz by (subst std_copy_eq) simp_all
      also have "take (pos + 1) ?a2 = take pos xs @ [x]"
        using pn by simp
      also have "drop (pos + 1 + (n - pos)) ?a2 = replicate (nc - n - 1) default"
        using pn sz by (simp add: Suc_diff_le)
      finally have c3: "std_copy xs pos n ?a2 (pos + 1) = Inr ?a3" by simp
      show ?thesis using ok by (simp only: ArrayPtr_eq if_False and_then_Inr c1 c2 c3)
    qed
    finally show ?thesis using False by (simp add: xs_def n_def nc_def)
  qed
qed

lemma Erase_assert:
  "size_m v \<le> pos \<Longrightarrow> Erase v pos = Inl AssertFailed"
  by (simp add: Erase_def assert_def)

lemma Erase_eq:
  assumes "size_m v \<le> length (items_m v)" and "pos < size_m v"
  shows "Erase v pos =
     Inr (v\<lparr>items_m := take pos (items_m v)
                  @ take (size_m v - Suc pos) (drop (Suc pos) (items_m v))
                  @ drop (size_m v - 1) (items_m v),
            size_m := size_m v - 1\<rparr>, pos)"
proof -
  have "pos + (size_m v - Suc pos) = size_m v - 1" using assms by arith
  then show ?thesis
    using assms
    by (simp add: Erase_def assert_def Let_def std_move_within_eq size_t_pred_def)
qed

lemma elements_Insert:
  assumes "well_formed v" and "pos \<le> size_m v" and "Insert v pos x = Inr (v', it)"
  shows "elements v' = take pos (elements v) @ [x] @ drop pos (elements v)"
    and "size_m v' = size_m v + 1" and "it = pos" and "well_formed v'"
    and "capacity_m v' = (if size_m v + 1 \<le> capacity_m v then capacity_m v
                          else max (capacity_m v * 2) (size_m v + 1))"
proof -
  have le: "size_m v \<le> length (items_m v)" "size_m v \<le> capacity_m v"
    "capacity_m v \<le> length (items_m v)" "length (items_m v) \<le> PTRDIFF_MAX"
    using assms by (auto simp: well_formed_def)
  have td: "drop pos (take (size_m v) (items_m v)) = take (size_m v - pos) (drop pos (items_m v))"
    by (simp add: drop_take)
  note eq = assms(3)[unfolded Insert_eq[OF assms(1,2)]]
  show "elements v' = take pos (elements v) @ [x] @ drop pos (elements v)"
    using eq assms(2) le
    by (auto simp: elements_def td min_absorb2 Suc_diff_le split: if_splits)
  show "size_m v' = size_m v + 1" using eq by (auto split: if_splits)
  show "it = pos" using eq by (auto split: if_splits)
  show "well_formed v'" using eq assms(2) le
    by (auto simp: well_formed_def split: if_splits)
  show "capacity_m v' = (if size_m v + 1 \<le> capacity_m v then capacity_m v
                          else max (capacity_m v * 2) (size_m v + 1))"
    using eq by (auto split: if_splits)
qed

lemma elements_Erase:
  assumes "well_formed v" and "pos < size_m v"
  shows "\<exists>v'. Erase v pos = Inr (v', pos) \<and> well_formed v'
           \<and> elements v' = take pos (elements v) @ drop (Suc pos) (elements v)
           \<and> size_m v' = size_m v - 1 \<and> capacity_m v' = capacity_m v"
proof -
  have le: "size_m v \<le> length (items_m v)" "size_m v \<le> capacity_m v"
    "capacity_m v \<le> length (items_m v)" "length (items_m v) \<le> PTRDIFF_MAX"
    using assms by (auto simp: well_formed_def)
  have td: "drop (Suc pos) (take (size_m v) (items_m v))
      = take (size_m v - Suc pos) (drop (Suc pos) (items_m v))"
    by (simp add: drop_take)
  show ?thesis
    using assms(2) le
    by (simp add: Erase_eq[OF le(1) assms(2)] elements_def well_formed_def td min_absorb2)
qed

section \<open>Well-formedness is established by the constructors and kept by the operations\<close>

lemma well_formed_default: "well_formed SimpleVector_default"
  by (simp add: well_formed_def SimpleVector_default_def)

lemma well_formed_fill:
  "SimpleVector_fill n val = Inr v \<Longrightarrow> well_formed v \<and> elements v = replicate n val"
  by (auto simp: SimpleVector_fill_def ArrayPtr_eq std_fill_eq well_formed_def elements_def
           split: if_splits)

lemma well_formed_sized:
  "SimpleVector_sized n = Inr v \<Longrightarrow> well_formed v \<and> elements v = replicate n default"
  by (simp add: SimpleVector_sized_def well_formed_fill)

lemma well_formed_init:
  "SimpleVector_init init = Inr v \<Longrightarrow> well_formed v \<and> elements v = init"
  by (auto simp: SimpleVector_init_def ArrayPtr_eq std_copy_eq well_formed_def elements_def
           split: if_splits)

lemma well_formed_copy:
  "well_formed other \<Longrightarrow> SimpleVector_copy other = Inr v \<Longrightarrow>
   well_formed v \<and> elements v = elements other \<and> capacity_m v = size_m other"
  by (auto simp: SimpleVector_copy_def ArrayPtr_eq std_copy_eq well_formed_def elements_def
           split: if_splits)

lemma SimpleVector_copy_outcome:
  "well_formed other \<Longrightarrow>
   SimpleVector_copy other = Inl (Throw bad_alloc) \<or> (\<exists>v. SimpleVector_copy other = Inr v)"
  by (auto simp: SimpleVector_copy_def ArrayPtr_eq std_copy_eq well_formed_def)

lemma well_formed_reserved:
  "SimpleVector_reserved n = Inr v \<Longrightarrow> well_formed v \<and> elements v = [] \<and> capacity_m v = n"
  by (auto simp: SimpleVector_reserved_def ArrayPtr_eq well_formed_def elements_def
           split: if_splits)

lemma well_formed_move:
  "well_formed other \<Longrightarrow>
   well_formed (fst (SimpleVector_move other)) \<and> well_formed (snd (SimpleVector_move other))"
  by (simp add: SimpleVector_move_def well_formed_def)

lemma well_formed_Clear: "well_formed v \<Longrightarrow> well_formed (Clear v)"
  by (simp add: Clear_def well_formed_def)

lemma well_formed_Reserve:
  "well_formed v \<Longrightarrow> Reserve v n = Inr v' \<Longrightarrow> well_formed v' \<and> elements v' = elements v"
  by (auto simp: Reserve_eq well_formed_def elements_def split: if_splits)

lemma well_formed_Resize:
  "well_formed v \<Longrightarrow> Resize v n = Inr v' \<Longrightarrow>
   well_formed v' \<and> elements v' = take n (elements v) @ replicate (n - size_m v) default"
  by (auto simp: Resize_eq well_formed_def elements_def min_def split: if_splits)

lemma well_formed_PopBack:
  "well_formed v \<Longrightarrow> PopBack v = Inr v' \<Longrightarrow>
   well_formed v' \<and> elements v' = butlast (elements v)"
  by (auto simp: PopBack_def assert_def IsEmpty_def size_t_pred_def well_formed_def
        elements_def butlast_take split: if_splits)

lemma well_formed_swap:
  "\<forall>r. well_formed (s r) \<Longrightarrow> well_formed (swap a b s r)"
  by (auto simp: swap_def std_swap_def put_items_def put_size_def put_capacity_def Let_def
        well_formed_def)

lemma swap_distinct:
  "a \<noteq> b \<Longrightarrow> swap a b s = s(a := s b, b := s a)"
  by (auto simp: swap_def std_swap_def put_items_def put_size_def put_capacity_def Let_def
        fun_eq_iff)

lemma copy_assign_eq:
  "copy_assign this rhs s =
     (if rhs = this then Inr s
      else if IsEmpty (s rhs) then Inr (s(this := Clear (s this)))
      else and_then (SimpleVector_copy (s rhs)) (\<lambda>rhs_copy. Inr (s(this := rhs_copy))))"
  by (cases "SimpleVector_copy (s rhs)")
     (auto simp: copy_assign_def swap_distinct Let_def fun_eq_iff)

lemma well_formed_copy_assign:
  assumes "\<forall>r. well_formed (s r)" and "copy_assign a b s = Inr s'"
  shows "well_formed (s' r)"
proof (cases "b = a \<or> IsEmpty (s b)")
  case True
  then show ?thesis
    using assms by (auto simp: copy_assign_eq well_formed_Clear split: if_splits)
next
  case False
  with assms(2) obtain c where c: "SimpleVector_copy (s b) = Inr c" and s': "s' = s(a := c)"
    by (auto simp: copy_assign_eq and_then_eq_Inr)
  from assms(1) have "well_formed (s b)" by blast
  from well_formed_copy[OF this c] assms(1) show ?thesis by (simp add: s')
qed

lemma well_formed_move_assign:
  "\<forall>r. well_formed (s r) \<Longrightarrow> well_formed (move_assign a b s r)"
  by (auto simp: move_assign_def std_swap_def std_exchange_def put_items_def put_size_def
        put_capacity_def Let_def well_formed_def)

section \<open>Checked element access\<close>

lemma At_out_of_range:
  "size_m v \<le> index \<Longrightarrow> At v index = Inl (Throw out_of_range)"
  by (simp add: At_def)

lemma At_in_range:
  "well_formed v \<Longrightarrow> index < size_m v \<Longrightarrow> At v index = Inr (elements v ! index)"
  by (simp add: At_def ArrayPtr_index_def deref_def well_formed_def elements_def)

lemma operator_index_const_out_of_range:
  "size_m v \<le> index \<Longrightarrow> operator_index_const v index = Inl Terminate"
  by (simp add: operator_index_const_def)

lemma operator_index_out_of_range:
  "size_m v \<le> index \<Longrightarrow> operator_index v index = Inl AssertFailed"
  by (simp add: operator_index_def assert_def)

text \<open>
  Claim C1. For every position at or beyond the size, the checked accesses (the checked
  form of \<^verbatim>\<open>operator[]\<close> and both overloads of \<^verbatim>\<open>At\<close>) fail with an out-of-range
  error that the caller can catch. \<^verbatim>\<open>At\<close> does so. The const \<^verbatim>\<open>operator[]\<close>, the one
  with the range check, is declared \<^verbatim>\<open>noexcept\<close>: on the vector \<open>[1, 2, 3]\<close> at
  position 3 its \<^verbatim>\<open>throw\<close> cannot leave the function and the program is terminated,
  where \<^verbatim>\<open>At\<close> on the same input throws \<^verbatim>\<open>std::out_of_range\<close>.
\<close>

theorem operator_index_const_terminates:
  "operator_index_const \<lparr>items_m = [1, 2, 3 :: int], size_m = 3, capacity_m = 3\<rparr> 3 = Inl Terminate
   \<and> \<not> catchable (operator_index_const \<lparr>items_m = [1, 2, 3 :: int], size_m = 3, capacity_m = 3\<rparr> 3)
   \<and> At \<lparr>items_m = [1, 2, 3 :: int], size_m = 3, capacity_m = 3\<rparr> 3 = Inl (Throw out_of_range)
   \<and> SimpleVector_init [1, 2, 3 :: int] = Inr \<lparr>items_m = [1, 2, 3], size_m = 3, capacity_m = 3\<rparr>"
  by (simp add: operator_index_const_def catchable_def At_def SimpleVector_init_def
        ArrayPtr_eq PTRDIFF_MAX_def std_copy_eq)

section \<open>Inserting and erasing at the same position\<close>

lemma Insert_cases:
  assumes "well_formed v" and "pos \<le> size_m v"
  shows "Insert v pos x = Inl (Throw bad_alloc) \<or> (\<exists>v'. Insert v pos x = Inr (v', pos))"
  unfolding Insert_eq[OF assms] by simp

text \<open>
  Claim C3. For every well-formed vector and every insertion position \<open>p\<close> in
  \<open>[0, size]\<close>, \<^verbatim>\<open>Insert\<close> at \<open>p\<close> of any value followed by \<^verbatim>\<open>Erase\<close> at \<open>p\<close>
  gives a vector with the original sequence of elements. \<^verbatim>\<open>Insert\<close> may have to
  allocate; unless that allocation throws, both calls return, and the iterators they
  return are \<open>p\<close>. The overload of \<^verbatim>\<open>Insert\<close> taking an rvalue computes the same.
\<close>

theorem Insert_then_Erase_restores:
  assumes "well_formed v" and "p \<le> size_m v"
    and "Insert v p x \<noteq> Inl (Throw bad_alloc)"
  shows "\<exists>v' v''. Insert v p x = Inr (v', p) \<and> Insert_rvalue v p x = Inr (v', p)
           \<and> Erase v' p = Inr (v'', p) \<and> elements v'' = elements v"
proof -
  from Insert_cases[OF assms(1,2), of x] assms(3)
  obtain v' where ins: "Insert v p x = Inr (v', p)" by blast
  note post = elements_Insert[OF assms(1,2) ins]
  have "p < size_m v'" using post(2) assms(2) by simp
  from elements_Erase[OF post(4) this]
  obtain v'' where er: "Erase v' p = Inr (v'', p)"
    and el: "elements v'' = take p (elements v') @ drop (Suc p) (elements v')"
    by blast
  have "p \<le> length (elements v)"
    using assms by (simp add: elements_def well_formed_def)
  then have "elements v'' = elements v"
    by (simp add: el post(1))
  with ins er show ?thesis by (simp add: Insert_rvalue_eq)
qed

theorem Insert_then_Erase_restores_witness:
  "\<exists>v' v''. Insert \<lparr>items_m = [1, 2, 3 :: int], size_m = 3, capacity_m = 3\<rparr> 1 99 = Inr (v', 1)
      \<and> Erase v' 1 = Inr (v'', 1)
      \<and> elements v'' = [1, 2, 3]"
proof -
  let ?v = "\<lparr>items_m = [1, 2, 3 :: int], size_m = 3, capacity_m = 3\<rparr>"
  have wf: "well_formed ?v" by (simp add: well_formed_def PTRDIFF_MAX_def)
  have p: "1 \<le> size_m ?v" by simp
  have ok: "Insert ?v 1 99 \<noteq> Inl (Throw bad_alloc)"
    by (subst Insert_eq[OF wf p]) (simp add: PTRDIFF_MAX_def)
  show ?thesis
    using Insert_then_Erase_restores[OF wf p ok] by (auto simp: elements_def)
qed

section \<open>The growth policy\<close>

lemma PushBack_grows:
  assumes "well_formed v" and "capacity_m v < size_m v + 1"
  shows "PushBack v x = Inl (Throw bad_alloc)
         \<or> (\<exists>v'. PushBack v x = Inr v'
                \<and> capacity_m v' = max (2 * capacity_m v) (size_m v + 1))"
  using assms(2) by (simp add: PushBack_eq[OF assms(1)] mult.commute)

lemma Insert_grows:
  assumes "well_formed v" and "capacity_m v < size_m v + 1" and "p \<le> size_m v"
  shows "Insert v p x = Inl (Throw bad_alloc)
         \<or> (\<exists>v'. Insert v p x = Inr (v', p)
                \<and> capacity_m v' = max (2 * capacity_m v) (size_m v + 1))"
  using assms(2) by (simp add: Insert_eq[OF assms(1,3)] mult.commute)

lemma Resize_grows:
  assumes "well_formed v" and "capacity_m v < new_size"
  shows "Resize v new_size = Inl (Throw bad_alloc)
         \<or> (\<exists>v'. Resize v new_size = Inr v'
                \<and> capacity_m v' = max (2 * capacity_m v) new_size)"
  using assms(2) by (simp add: Resize_eq[OF assms(1)] mult.commute)

text \<open>
  Claim C2. Whenever \<^verbatim>\<open>PushBack\<close>, \<^verbatim>\<open>Insert\<close> or \<^verbatim>\<open>Resize\<close> needs more room than the
  current capacity, the new capacity is \<open>max (2 * capacity) required\<close>, where
  \<open>required\<close> is \<open>size + 1\<close> for \<^verbatim>\<open>PushBack\<close> and \<^verbatim>\<open>Insert\<close> and the new size for
  \<^verbatim>\<open>Resize\<close>. On a well-formed vector such a call has two possible outcomes: the
  allocation throws \<^verbatim>\<open>std::bad_alloc\<close>, or the call returns and the capacity is that
  maximum, computed without wrap-around. Nothing is said about which allocations
  succeed. The rvalue overloads compute the same.
\<close>

theorem growth_policy:
  assumes "well_formed v"
  shows "(capacity_m v < size_m v + 1 \<longrightarrow>
           PushBack v x = Inl (Throw bad_alloc)
           \<or> (\<exists>v'. PushBack v x = Inr v'
                  \<and> capacity_m v' = max (2 * capacity_m v) (size_m v + 1)))
       \<and> PushBack_rvalue v x = PushBack v x
       \<and> (capacity_m v < size_m v + 1 \<and> p \<le> size_m v \<longrightarrow>
           Insert v p x = Inl (Throw bad_alloc)
           \<or> (\<exists>v'. Insert v p x = Inr (v', p)
                  \<and> capacity_m v' = max (2 * capacity_m v) (size_m v + 1)))
       \<and> Insert_rvalue v p x = Insert v p x
       \<and> (capacity_m v < new_size \<longrightarrow>
           Resize v new_size = Inl (Throw bad_alloc)
           \<or> (\<exists>v'. Resize v new_size = Inr v'
                  \<and> capacity_m v' = max (2 * capacity_m v) new_size))"
  using PushBack_grows[OF assms, of x] Insert_grows[OF assms, of p x]
    Resize_grows[OF assms, of new_size] PushBack_rvalue_eq[of v x] Insert_rvalue_eq[of v p x]
  by blast

theorem growth_policy_witness:
  "(\<exists>v'. PushBack \<lparr>items_m = [1, 2, 3 :: int], size_m = 3, capacity_m = 3\<rparr> 4 = Inr v'
         \<and> capacity_m v' = 6)
   \<and> (\<exists>v'. Insert \<lparr>items_m = [1, 2, 3 :: int], size_m = 3, capacity_m = 3\<rparr> 1 4 = Inr (v', 1)
         \<and> capacity_m v' = 6)
   \<and> (\<exists>v'. Resize \<lparr>items_m = [1, 2, 3 :: int], size_m = 3, capacity_m = 3\<rparr> 7 = Inr v'
         \<and> capacity_m v' = 7)"
proof -
  let ?v = "\<lparr>items_m = [1, 2, 3 :: int], size_m = 3, capacity_m = 3\<rparr>"
  have wf: "well_formed ?v" by (simp add: well_formed_def PTRDIFF_MAX_def)
  have p: "1 \<le> size_m ?v" by simp
  have ok1: "PushBack ?v 4 \<noteq> Inl (Throw bad_alloc)"
    by (subst PushBack_eq[OF wf]) (simp add: PTRDIFF_MAX_def)
  have ok2: "Insert ?v 1 4 \<noteq> Inl (Throw bad_alloc)"
    by (subst Insert_eq[OF wf p]) (simp add: PTRDIFF_MAX_def)
  have ok3: "Resize ?v 7 \<noteq> Inl (Throw bad_alloc)"
    by (subst Resize_eq[OF wf]) (simp add: PTRDIFF_MAX_def)
  show ?thesis
    using growth_policy[OF wf, of 4 1 7] ok1 ok2 ok3 by simp
qed

section \<open>The invariant size \<le> capacity\<close>

lemma ArrayPtr_Inr: "ArrayPtr n = Inr p \<Longrightarrow> length p = n"
  by (auto simp: ArrayPtr_eq split: if_splits)

lemma inv_ctors:
  "size_m (SimpleVector_default :: 'a SimpleVector) \<le> capacity_m (SimpleVector_default :: 'a SimpleVector)"
  "SimpleVector_fill n val = Inr v \<Longrightarrow> size_m v \<le> capacity_m v"
  "SimpleVector_sized n = Inr v \<Longrightarrow> size_m v \<le> capacity_m v"
  "SimpleVector_init init = Inr v \<Longrightarrow> size_m v \<le> capacity_m v"
  "SimpleVector_copy other = Inr v \<Longrightarrow> size_m v \<le> capacity_m v"
  "SimpleVector_reserved n = Inr v \<Longrightarrow> size_m v \<le> capacity_m v"
  by (auto simp: SimpleVector_default_def SimpleVector_fill_def SimpleVector_sized_def
        SimpleVector_init_def SimpleVector_copy_def SimpleVector_reserved_def and_then_eq_Inr)

lemma inv_move:
  "size_m other \<le> capacity_m other \<Longrightarrow>
   size_m (fst (SimpleVector_move other)) \<le> capacity_m (fst (SimpleVector_move other))
   \<and> size_m (snd (SimpleVector_move other)) \<le> capacity_m (snd (SimpleVector_move other))"
  by (simp add: SimpleVector_move_def)

lemma inv_Clear: "size_m (Clear v) \<le> capacity_m (Clear v)"
  by (simp add: Clear_def)

lemma inv_Reserve:
  "size_m v \<le> capacity_m v \<Longrightarrow> Reserve v n = Inr v' \<Longrightarrow> size_m v' \<le> capacity_m v'"
  by (auto simp: Reserve_def and_then_eq_Inr ArrayPtr_swap_def split: if_splits)

lemma inv_Resize:
  "size_m v \<le> capacity_m v \<Longrightarrow> Resize v n = Inr v' \<Longrightarrow> size_m v' \<le> capacity_m v'"
  by (auto simp: Resize_def and_then_eq_Inr ArrayPtr_swap_def Let_def assert_def
           split: if_splits)

lemma inv_PushBack:
  "PushBack v x = Inr v' \<Longrightarrow> size_m v' \<le> capacity_m v'"
  by (auto simp: PushBack_def and_then_eq_Inr ArrayPtr_swap_def Let_def split: if_splits)

lemma inv_PopBack:
  "size_m v \<le> capacity_m v \<Longrightarrow> PopBack v = Inr v' \<Longrightarrow> size_m v' \<le> capacity_m v'"
  by (auto simp: PopBack_def assert_def IsEmpty_def size_t_pred_def split: if_splits)

lemma inv_Insert:
  "Insert v pos x = Inr (v', it) \<Longrightarrow> size_m v' \<le> capacity_m v'"
  by (auto simp: Insert_def and_then_eq_Inr ArrayPtr_swap_def Let_def assert_def
           split: if_splits)

lemma inv_Erase:
  "size_m v \<le> capacity_m v \<Longrightarrow> Erase v pos = Inr (v', it) \<Longrightarrow> size_m v' \<le> capacity_m v'"
  by (auto simp: Erase_def and_then_eq_Inr Let_def assert_def size_t_pred_def split: if_splits)

lemma inv_swap:
  "\<forall>r. size_m (s r) \<le> capacity_m (s r) \<Longrightarrow> size_m (swap a b s r) \<le> capacity_m (swap a b s r)"
  by (auto simp: swap_def std_swap_def put_items_def put_size_def put_capacity_def Let_def)

lemma inv_copy_assign:
  "\<forall>r. size_m (s r) \<le> capacity_m (s r) \<Longrightarrow> copy_assign a b s = Inr s' \<Longrightarrow>
   size_m (s' r) \<le> capacity_m (s' r)"
  by (auto simp: copy_assign_def Clear_def SimpleVector_copy_def and_then_eq_Inr
        swap_def std_swap_def put_items_def put_size_def put_capacity_def Let_def
      split: if_splits)

lemma inv_move_assign:
  "\<forall>r. size_m (s r) \<le> capacity_m (s r) \<Longrightarrow>
   size_m (move_assign a b s r) \<le> capacity_m (move_assign a b s r)"
  by (auto simp: move_assign_def std_swap_def std_exchange_def put_items_def put_size_def
        put_capacity_def Let_def)

lemma capacity_PushBack:
  "PushBack v x = Inr v' \<Longrightarrow> capacity_m v \<le> capacity_m v'"
  by (auto simp: PushBack_def and_then_eq_Inr ArrayPtr_swap_def Let_def split: if_splits)

lemma PushBack_all_capacity:
  "PushBack_all v xs = Inr v' \<Longrightarrow>
   capacity_m v \<le> capacity_m v' \<and> (size_m v \<le> capacity_m v \<longrightarrow> size_m v' \<le> capacity_m v')"
proof (induction xs arbitrary: v)
  case Nil
  then show ?case by simp
next
  case (Cons x xs)
  then obtain v1 where v1: "PushBack v x = Inr v1" and rest: "PushBack_all v1 xs = Inr v'"
    by (auto split: sum.splits)
  from Cons.IH[OF rest] capacity_PushBack[OF v1] inv_PushBack[OF v1]
  show ?case by simp
qed

lemma well_formed_PushBack:
  assumes "well_formed v"
  shows "PushBack v x = Inl (Throw bad_alloc)
       \<or> (\<exists>v'. PushBack v x = Inr v' \<and> well_formed v' \<and> elements v' = elements v @ [x])"
  using assms
  by (auto simp: PushBack_eq[OF assms] well_formed_def elements_def take_Suc_conv_app_nth)

lemma PushBack_all_returns:
  "well_formed v \<Longrightarrow>
   PushBack_all v xs = Inl (Throw bad_alloc)
   \<or> (\<exists>v'. PushBack_all v xs = Inr v' \<and> well_formed v' \<and> elements v' = elements v @ xs)"
proof (induction xs arbitrary: v)
  case Nil
  then show ?case by simp
next
  case (Cons x xs)
  from well_formed_PushBack[OF Cons.prems, of x] show ?case
  proof
    assume "PushBack v x = Inl (Throw bad_alloc)"
    then show ?thesis by simp
  next
    assume "\<exists>v'. PushBack v x = Inr v' \<and> well_formed v' \<and> elements v' = elements v @ [x]"
    then obtain v1 where v1: "PushBack v x = Inr v1" "well_formed v1"
      "elements v1 = elements v @ [x]" by blast
    from Cons.IH[OF v1(2)] v1(1,3) show ?thesis by auto
  qed
qed

lemma capacity_Clear: "capacity_m (Clear v) = capacity_m v"
  by (simp add: Clear_def)

lemma capacity_PopBack: "PopBack v = Inr v' \<Longrightarrow> capacity_m v' = capacity_m v"
  by (auto simp: PopBack_def assert_def split: if_splits)

lemma capacity_Erase: "Erase v pos = Inr (v', it) \<Longrightarrow> capacity_m v' = capacity_m v"
  by (auto simp: Erase_def and_then_eq_Inr Let_def assert_def split: if_splits)

lemma capacity_Reserve: "Reserve v n = Inr v' \<Longrightarrow> capacity_m v \<le> capacity_m v'"
  by (auto simp: Reserve_def and_then_eq_Inr ArrayPtr_swap_def split: if_splits)

lemma capacity_Resize: "Resize v n = Inr v' \<Longrightarrow> capacity_m v \<le> capacity_m v'"
  by (auto simp: Resize_def and_then_eq_Inr ArrayPtr_swap_def Let_def assert_def
           split: if_splits)

lemma capacity_Insert: "Insert v pos x = Inr (v', it) \<Longrightarrow> capacity_m v \<le> capacity_m v'"
  by (auto simp: Insert_def and_then_eq_Inr ArrayPtr_swap_def Let_def assert_def
           split: if_splits)

lemma capacity_move:
  "capacity_m (fst (SimpleVector_move v)) = capacity_m v
   \<and> capacity_m (snd (SimpleVector_move v)) = 0"
  by (simp add: SimpleVector_move_def)

lemma capacity_swap:
  "(\<forall>r. r \<noteq> a \<and> r \<noteq> b \<longrightarrow> swap a b s r = s r)
   \<and> capacity_m (swap a b s a) = capacity_m (s b)
   \<and> capacity_m (swap a b s b) = capacity_m (s a)"
  by (auto simp: swap_def std_swap_def put_items_def put_size_def put_capacity_def Let_def)

lemma capacity_copy_assign:
  assumes "copy_assign a b s = Inr s1"
  shows "(\<forall>r. r \<noteq> a \<longrightarrow> s1 r = s r)
   \<and> capacity_m (s1 a) = (if b = a \<or> IsEmpty (s b) then capacity_m (s a) else size_m (s b))"
  using assms
  by (auto simp: copy_assign_eq and_then_eq_Inr Clear_def SimpleVector_copy_def
           split: if_splits)

lemma capacity_move_assign:
  "(\<forall>r. r \<noteq> a \<and> r \<noteq> b \<longrightarrow> move_assign a b s r = s r)
   \<and> capacity_m (move_assign a b s a) = capacity_m (s b)
   \<and> (a \<noteq> b \<longrightarrow> capacity_m (move_assign a b s b) = 0)"
  by (auto simp: move_assign_def std_swap_def std_exchange_def put_items_def put_size_def
        put_capacity_def Let_def)

text \<open>
  Claim C4, as stated, also says that the capacity of a vector decreases only through
  assignment or swap. Move construction is neither, and it leaves its source with
  capacity 0: the source \<open>[1, 2, 3]\<close> has capacity 3 before and 0 after.
\<close>

theorem move_construction_lowers_source_capacity:
  "GetCapacity \<lparr>items_m = [1, 2, 3 :: int], size_m = 3, capacity_m = 3\<rparr> = 3
   \<and> GetCapacity
        (snd (SimpleVector_move \<lparr>items_m = [1, 2, 3 :: int], size_m = 3, capacity_m = 3\<rparr>)) = 0"
  by (simp add: GetCapacity_def SimpleVector_move_def)

text \<open>
  Claim C4, amended. \<open>size \<le> capacity\<close> holds after every constructor and, when it
  held before, after every operation that returns: the member functions on one object,
  and \<open>swap\<close>, copy assignment and move assignment for every object of the store. No
  member function on one object lowers the capacity: \<^verbatim>\<open>Clear\<close>, \<^verbatim>\<open>PopBack\<close> and
  \<^verbatim>\<open>Erase\<close> keep it, \<^verbatim>\<open>Reserve\<close>, \<^verbatim>\<open>Resize\<close>, \<^verbatim>\<open>PushBack\<close> and \<^verbatim>\<open>Insert\<close> keep or
  raise it; so after any sequence of \<^verbatim>\<open>PushBack\<close> calls the capacity is at least what
  it was, and on a well-formed vector such a sequence throws \<^verbatim>\<open>std::bad_alloc\<close> or
  returns. The capacity of an object changes otherwise only when it is an operand of
  \<open>swap\<close> or of an assignment, or the source of a move construction: \<open>swap\<close> and move
  assignment give the target the capacity of the source, copy assignment from a
  non-empty source gives it the size of the source and from an empty source keeps it,
  and the source of a move construction or of a move assignment to another object is
  left with capacity 0. Objects that are not operands are unchanged. A call that fails
  an assertion (\<^verbatim>\<open>PopBack\<close> on an empty vector, a position out of range) has no state
  after it.
\<close>

theorem size_le_capacity_and_capacity_changes:
  fixes v :: "'a::default SimpleVector" and s :: "('r, 'a) store"
  shows
  "(size_m (SimpleVector_default :: 'a SimpleVector) \<le> capacity_m (SimpleVector_default :: 'a SimpleVector)
   \<and> (SimpleVector_fill n val = Inr c1 \<longrightarrow> size_m (c1 :: 'a SimpleVector) \<le> capacity_m c1)
   \<and> (SimpleVector_sized n = Inr c2 \<longrightarrow> size_m (c2 :: 'a SimpleVector) \<le> capacity_m c2)
   \<and> (SimpleVector_init init = Inr c3 \<longrightarrow> size_m (c3 :: 'a SimpleVector) \<le> capacity_m c3)
   \<and> (SimpleVector_copy v = Inr c4 \<longrightarrow> size_m c4 \<le> capacity_m c4)
   \<and> (SimpleVector_reserved n = Inr c5 \<longrightarrow> size_m (c5 :: 'a SimpleVector) \<le> capacity_m c5)
   \<and> (size_m v \<le> capacity_m v \<longrightarrow>
          size_m (fst (SimpleVector_move v)) \<le> capacity_m (fst (SimpleVector_move v))
        \<and> size_m (snd (SimpleVector_move v)) \<le> capacity_m (snd (SimpleVector_move v))
        \<and> size_m (Clear v) \<le> capacity_m (Clear v)
        \<and> (Reserve v n = Inr v1 \<longrightarrow> size_m v1 \<le> capacity_m v1)
        \<and> (Resize v n = Inr v2 \<longrightarrow> size_m v2 \<le> capacity_m v2)
        \<and> (PushBack v x = Inr v3 \<longrightarrow> size_m v3 \<le> capacity_m v3)
        \<and> (PushBack_rvalue v x = Inr v3 \<longrightarrow> size_m v3 \<le> capacity_m v3)
        \<and> (PopBack v = Inr v4 \<longrightarrow> size_m v4 \<le> capacity_m v4)
        \<and> (Insert v p x = Inr (v5, i5) \<longrightarrow> size_m v5 \<le> capacity_m v5)
        \<and> (Insert_rvalue v p x = Inr (v5, i5) \<longrightarrow> size_m v5 \<le> capacity_m v5)
        \<and> (Erase v p = Inr (v6, i6) \<longrightarrow> size_m v6 \<le> capacity_m v6)
        \<and> (PushBack_all v xs = Inr v7 \<longrightarrow>
               size_m v7 \<le> capacity_m v7 \<and> capacity_m v \<le> capacity_m v7))
   \<and> ((\<forall>r. size_m (s r) \<le> capacity_m (s r)) \<longrightarrow>
          (\<forall>r. size_m (swap a b s r) \<le> capacity_m (swap a b s r))
        \<and> (copy_assign a b s = Inr s1 \<longrightarrow> (\<forall>r. size_m (s1 r) \<le> capacity_m (s1 r)))
        \<and> (\<forall>r. size_m (move_assign a b s r) \<le> capacity_m (move_assign a b s r)))
   \<and> (well_formed v \<longrightarrow>
          PushBack_all v xs = Inl (Throw bad_alloc) \<or> (\<exists>v'. PushBack_all v xs = Inr v')))
   \<and> (capacity_m (Clear v) = capacity_m v
   \<and> (PopBack v = Inr v4 \<longrightarrow> capacity_m v4 = capacity_m v)
   \<and> (Erase v p = Inr (v6, i6) \<longrightarrow> capacity_m v6 = capacity_m v)
   \<and> (Reserve v n = Inr v1 \<longrightarrow> capacity_m v \<le> capacity_m v1)
   \<and> (Resize v n = Inr v2 \<longrightarrow> capacity_m v \<le> capacity_m v2)
   \<and> (PushBack v x = Inr v3 \<longrightarrow> capacity_m v \<le> capacity_m v3)
   \<and> (PushBack_rvalue v x = Inr v3 \<longrightarrow> capacity_m v \<le> capacity_m v3)
   \<and> (Insert v p x = Inr (v5, i5) \<longrightarrow> capacity_m v \<le> capacity_m v5)
   \<and> (Insert_rvalue v p x = Inr (v5, i5) \<longrightarrow> capacity_m v \<le> capacity_m v5)
   \<and> (PushBack_all v xs = Inr v7 \<longrightarrow> capacity_m v \<le> capacity_m v7))
   \<and> (capacity_m (fst (SimpleVector_move v)) = capacity_m v
   \<and> capacity_m (snd (SimpleVector_move v)) = 0
   \<and> (\<forall>r. r \<noteq> a \<and> r \<noteq> b \<longrightarrow> swap a b s r = s r)
   \<and> capacity_m (swap a b s a) = capacity_m (s b)
   \<and> capacity_m (swap a b s b) = capacity_m (s a)
   \<and> (copy_assign a b s = Inr s1 \<longrightarrow>
          (\<forall>r. r \<noteq> a \<longrightarrow> s1 r = s r)
        \<and> capacity_m (s1 a) = (if b = a \<or> IsEmpty (s b) then capacity_m (s a) else size_m (s b)))
   \<and> (\<forall>r. r \<noteq> a \<and> r \<noteq> b \<longrightarrow> move_assign a b s r = s r)
   \<and> capacity_m (move_assign a b s a) = capacity_m (s b)
   \<and> (a \<noteq> b \<longrightarrow> capacity_m (move_assign a b s b) = 0))"
proof -
  have ctors: "size_m (SimpleVector_default :: 'a SimpleVector) \<le> capacity_m (SimpleVector_default :: 'a SimpleVector)
   \<and> (SimpleVector_fill n val = Inr c1 \<longrightarrow> size_m (c1 :: 'a SimpleVector) \<le> capacity_m c1)
   \<and> (SimpleVector_sized n = Inr c2 \<longrightarrow> size_m (c2 :: 'a SimpleVector) \<le> capacity_m c2)
   \<and> (SimpleVector_init init = Inr c3 \<longrightarrow> size_m (c3 :: 'a SimpleVector) \<le> capacity_m c3)
   \<and> (SimpleVector_copy v = Inr c4 \<longrightarrow> size_m c4 \<le> capacity_m c4)
   \<and> (SimpleVector_reserved n = Inr c5 \<longrightarrow> size_m (c5 :: 'a SimpleVector) \<le> capacity_m c5)"
    using inv_ctors by blast
  have ops: "size_m v \<le> capacity_m v \<longrightarrow>
          size_m (fst (SimpleVector_move v)) \<le> capacity_m (fst (SimpleVector_move v))
        \<and> size_m (snd (SimpleVector_move v)) \<le> capacity_m (snd (SimpleVector_move v))
        \<and> size_m (Clear v) \<le> capacity_m (Clear v)
        \<and> (Reserve v n = Inr v1 \<longrightarrow> size_m v1 \<le> capacity_m v1)
        \<and> (Resize v n = Inr v2 \<longrightarrow> size_m v2 \<le> capacity_m v2)
        \<and> (PushBack v x = Inr v3 \<longrightarrow> size_m v3 \<le> capacity_m v3)
        \<and> (PushBack_rvalue v x = Inr v3 \<longrightarrow> size_m v3 \<le> capacity_m v3)
        \<and> (PopBack v = Inr v4 \<longrightarrow> size_m v4 \<le> capacity_m v4)
        \<and> (Insert v p x = Inr (v5, i5) \<longrightarrow> size_m v5 \<le> capacity_m v5)
        \<and> (Insert_rvalue v p x = Inr (v5, i5) \<longrightarrow> size_m v5 \<le> capacity_m v5)
        \<and> (Erase v p = Inr (v6, i6) \<longrightarrow> size_m v6 \<le> capacity_m v6)
        \<and> (PushBack_all v xs = Inr v7 \<longrightarrow>
               size_m v7 \<le> capacity_m v7 \<and> capacity_m v \<le> capacity_m v7)"
    using inv_move[of v] inv_Clear[of v] inv_Reserve[of v n v1] inv_Resize[of v n v2]
      inv_PushBack[of v x v3] inv_PopBack[of v v4] inv_Insert[of v p x v5 i5]
      inv_Erase[of v p v6 i6] PushBack_all_capacity[of v xs v7]
    by (simp add: PushBack_rvalue_eq Insert_rvalue_eq)
  have two: "(\<forall>r. size_m (s r) \<le> capacity_m (s r)) \<longrightarrow>
          (\<forall>r. size_m (swap a b s r) \<le> capacity_m (swap a b s r))
        \<and> (copy_assign a b s = Inr s1 \<longrightarrow> (\<forall>r. size_m (s1 r) \<le> capacity_m (s1 r)))
        \<and> (\<forall>r. size_m (move_assign a b s r) \<le> capacity_m (move_assign a b s r))"
    using inv_swap[of s a b] inv_copy_assign[of s a b s1] inv_move_assign[of s a b]
    by blast
  have ret: "well_formed v \<longrightarrow>
          PushBack_all v xs = Inl (Throw bad_alloc) \<or> (\<exists>v'. PushBack_all v xs = Inr v')"
    using PushBack_all_returns[of v xs] by blast
  have cap1: "capacity_m (Clear v) = capacity_m v
   \<and> (PopBack v = Inr v4 \<longrightarrow> capacity_m v4 = capacity_m v)
   \<and> (Erase v p = Inr (v6, i6) \<longrightarrow> capacity_m v6 = capacity_m v)
   \<and> (Reserve v n = Inr v1 \<longrightarrow> capacity_m v \<le> capacity_m v1)
   \<and> (Resize v n = Inr v2 \<longrightarrow> capacity_m v \<le> capacity_m v2)
   \<and> (PushBack v x = Inr v3 \<longrightarrow> capacity_m v \<le> capacity_m v3)
   \<and> (PushBack_rvalue v x = Inr v3 \<longrightarrow> capacity_m v \<le> capacity_m v3)
   \<and> (Insert v p x = Inr (v5, i5) \<longrightarrow> capacity_m v \<le> capacity_m v5)
   \<and> (Insert_rvalue v p x = Inr (v5, i5) \<longrightarrow> capacity_m v \<le> capacity_m v5)
   \<and> (PushBack_all v xs = Inr v7 \<longrightarrow> capacity_m v \<le> capacity_m v7)"
    using capacity_Clear[of v] capacity_PopBack[of v v4] capacity_Erase[of v p v6 i6]
      capacity_Reserve[of v n v1] capacity_Resize[of v n v2] capacity_PushBack[of v x v3]
      capacity_Insert[of v p x v5 i5] PushBack_all_capacity[of v xs v7]
    by (simp add: PushBack_rvalue_eq Insert_rvalue_eq)
  have cap2: "capacity_m (fst (SimpleVector_move v)) = capacity_m v
   \<and> capacity_m (snd (SimpleVector_move v)) = 0
   \<and> (\<forall>r. r \<noteq> a \<and> r \<noteq> b \<longrightarrow> swap a b s r = s r)
   \<and> capacity_m (swap a b s a) = capacity_m (s b)
   \<and> capacity_m (swap a b s b) = capacity_m (s a)
   \<and> (copy_assign a b s = Inr s1 \<longrightarrow>
          (\<forall>r. r \<noteq> a \<longrightarrow> s1 r = s r)
        \<and> capacity_m (s1 a) = (if b = a \<or> IsEmpty (s b) then capacity_m (s a) else size_m (s b)))
   \<and> (\<forall>r. r \<noteq> a \<and> r \<noteq> b \<longrightarrow> move_assign a b s r = s r)
   \<and> capacity_m (move_assign a b s a) = capacity_m (s b)
   \<and> (a \<noteq> b \<longrightarrow> capacity_m (move_assign a b s b) = 0)"
    using capacity_move[of v] capacity_swap[of a b s] capacity_copy_assign[of a b s s1]
      capacity_move_assign[of a b s]
    by blast
  have inv: "size_m (SimpleVector_default :: 'a SimpleVector) \<le> capacity_m (SimpleVector_default :: 'a SimpleVector)
   \<and> (SimpleVector_fill n val = Inr c1 \<longrightarrow> size_m (c1 :: 'a SimpleVector) \<le> capacity_m c1)
   \<and> (SimpleVector_sized n = Inr c2 \<longrightarrow> size_m (c2 :: 'a SimpleVector) \<le> capacity_m c2)
   \<and> (SimpleVector_init init = Inr c3 \<longrightarrow> size_m (c3 :: 'a SimpleVector) \<le> capacity_m c3)
   \<and> (SimpleVector_copy v = Inr c4 \<longrightarrow> size_m c4 \<le> capacity_m c4)
   \<and> (SimpleVector_reserved n = Inr c5 \<longrightarrow> size_m (c5 :: 'a SimpleVector) \<le> capacity_m c5)
   \<and> (size_m v \<le> capacity_m v \<longrightarrow>
          size_m (fst (SimpleVector_move v)) \<le> capacity_m (fst (SimpleVector_move v))
        \<and> size_m (snd (SimpleVector_move v)) \<le> capacity_m (snd (SimpleVector_move v))
        \<and> size_m (Clear v) \<le> capacity_m (Clear v)
        \<and> (Reserve v n = Inr v1 \<longrightarrow> size_m v1 \<le> capacity_m v1)
        \<and> (Resize v n = Inr v2 \<longrightarrow> size_m v2 \<le> capacity_m v2)
        \<and> (PushBack v x = Inr v3 \<longrightarrow> size_m v3 \<le> capacity_m v3)
        \<and> (PushBack_rvalue v x = Inr v3 \<longrightarrow> size_m v3 \<le> capacity_m v3)
        \<and> (PopBack v = Inr v4 \<longrightarrow> size_m v4 \<le> capacity_m v4)
        \<and> (Insert v p x = Inr (v5, i5) \<longrightarrow> size_m v5 \<le> capacity_m v5)
        \<and> (Insert_rvalue v p x = Inr (v5, i5) \<longrightarrow> size_m v5 \<le> capacity_m v5)
        \<and> (Erase v p = Inr (v6, i6) \<longrightarrow> size_m v6 \<le> capacity_m v6)
        \<and> (PushBack_all v xs = Inr v7 \<longrightarrow>
               size_m v7 \<le> capacity_m v7 \<and> capacity_m v \<le> capacity_m v7))
   \<and> ((\<forall>r. size_m (s r) \<le> capacity_m (s r)) \<longrightarrow>
          (\<forall>r. size_m (swap a b s r) \<le> capacity_m (swap a b s r))
        \<and> (copy_assign a b s = Inr s1 \<longrightarrow> (\<forall>r. size_m (s1 r) \<le> capacity_m (s1 r)))
        \<and> (\<forall>r. size_m (move_assign a b s r) \<le> capacity_m (move_assign a b s r)))
   \<and> (well_formed v \<longrightarrow>
          PushBack_all v xs = Inl (Throw bad_alloc) \<or> (\<exists>v'. PushBack_all v xs = Inr v'))"
    using ctors ops two ret by (intro conjI) blast+
  show ?thesis
    by (rule conjI[OF inv conjI[OF cap1 cap2]])
qed

theorem size_le_capacity_and_capacity_changes_witness:
  "PushBack_all \<lparr>items_m = [1, 2, 3 :: int], size_m = 3, capacity_m = 3\<rparr> [4, 5]
     = Inr \<lparr>items_m = [1, 2, 3, 4, 5, 0], size_m = 5, capacity_m = 6\<rparr>
   \<and> size_m \<lparr>items_m = [1, 2, 3, 4, 5, 0 :: int], size_m = 5, capacity_m = 6\<rparr>
       \<le> capacity_m \<lparr>items_m = [1, 2, 3, 4, 5, 0 :: int], size_m = 5, capacity_m = 6\<rparr>
   \<and> capacity_m \<lparr>items_m = [1, 2, 3 :: int], size_m = 3, capacity_m = 3\<rparr>
       \<le> capacity_m \<lparr>items_m = [1, 2, 3, 4, 5, 0 :: int], size_m = 5, capacity_m = 6\<rparr>
   \<and> PopBack \<lparr>items_m = [1, 2, 3 :: int], size_m = 3, capacity_m = 3\<rparr>
       = Inr \<lparr>items_m = [1, 2, 3], size_m = 2, capacity_m = 3\<rparr>
   \<and> capacity_m \<lparr>items_m = [1, 2, 3 :: int], size_m = 2, capacity_m = 3\<rparr>
       = capacity_m \<lparr>items_m = [1, 2, 3 :: int], size_m = 3, capacity_m = 3\<rparr>
   \<and> capacity_m (move_assign (0::nat) 1
         ((\<lambda>_. SimpleVector_default)(1 := \<lparr>items_m = [1, 2, 3 :: int], size_m = 3, capacity_m = 3\<rparr>)) 0)
       = 3
   \<and> capacity_m (move_assign (0::nat) 1
         ((\<lambda>_. SimpleVector_default)(1 := \<lparr>items_m = [1, 2, 3 :: int], size_m = 3, capacity_m = 3\<rparr>)) 1)
       = 0"
proof -
  let ?v = "\<lparr>items_m = [1, 2, 3 :: int], size_m = 3, capacity_m = 3\<rparr>"
  let ?v4 = "\<lparr>items_m = [1, 2, 3 :: int], size_m = 2, capacity_m = 3\<rparr>"
  let ?v7 = "\<lparr>items_m = [1, 2, 3, 4, 5, 0 :: int], size_m = 5, capacity_m = 6\<rparr>"
  let ?s = "(\<lambda>_. SimpleVector_default)(1::nat := ?v)"
  have run: "PushBack_all ?v [4, 5] = Inr ?v7"
    by (simp add: PushBack_eq well_formed_def PTRDIFF_MAX_def default_int_def)
       (simp add: numeral_eq_Suc)
  have pop: "PopBack ?v = Inr ?v4"
    by (simp add: PopBack_def assert_def IsEmpty_def size_t_pred_def)
  have inv: "size_m ?v \<le> capacity_m ?v" by simp
  have ne: "(0::nat) \<noteq> 1" by simp
  from size_le_capacity_and_capacity_changes[where v = ?v and xs = "[4, 5]" and ?v7.0 = ?v7
      and ?v4.0 = ?v4 and s = ?s and a = 0 and b = 1] inv run pop ne
  show ?thesis by simp
qed

section \<open>Moving and assigning\<close>

lemma std_swap_same: "std_swap get put a a s = s(a := put (get (s a)) (put (get (s a)) (s a)))"
  by (simp add: std_swap_def Let_def)

lemma move_assign_distinct:
  assumes "this \<noteq> other"
  shows "move_assign this other s =
     s(this := \<lparr>items_m = items_m (s other), size_m = size_m (s other),
                  capacity_m = capacity_m (s other)\<rparr>,
       other := \<lparr>items_m = items_m (s this), size_m = 0, capacity_m = 0\<rparr>)"
  using assms
  by (auto simp: move_assign_def std_swap_def std_exchange_def put_items_def put_size_def
        put_capacity_def Let_def fun_eq_iff)

text \<open>
  Claim C5. After move construction the new object holds the buffer, the size and the
  capacity the source had, and the source has size 0 and capacity 0. After move
  assignment between two different objects the target holds the buffer, the element
  sequence, the size and the capacity the source had, and the source has size 0 and
  capacity 0. (When source and target are the same object, see claim C10.)
\<close>

theorem move_leaves_source_empty:
  "fst (SimpleVector_move src) = src
   \<and> GetSize (snd (SimpleVector_move src)) = 0
   \<and> GetCapacity (snd (SimpleVector_move src)) = 0
   \<and> (this \<noteq> other \<longrightarrow>
        move_assign this other s this = s other
        \<and> elements (move_assign this other s this) = elements (s other)
        \<and> GetSize (move_assign this other s this) = GetSize (s other)
        \<and> GetCapacity (move_assign this other s this) = GetCapacity (s other)
        \<and> GetSize (move_assign this other s other) = 0
        \<and> GetCapacity (move_assign this other s other) = 0)"
  by (simp add: SimpleVector_move_def GetSize_def GetCapacity_def move_assign_distinct
        elements_def)

theorem move_leaves_source_empty_witness:
  "fst (SimpleVector_move \<lparr>items_m = [1, 2, 3 :: int], size_m = 3, capacity_m = 3\<rparr>)
     = \<lparr>items_m = [1, 2, 3], size_m = 3, capacity_m = 3\<rparr>
   \<and> move_assign (0::nat) 1
     ((\<lambda>_. SimpleVector_default)(1 := \<lparr>items_m = [1, 2, 3 :: int], size_m = 3, capacity_m = 3\<rparr>)) 0
     = \<lparr>items_m = [1, 2, 3], size_m = 3, capacity_m = 3\<rparr>
   \<and> GetSize (move_assign (0::nat) 1
     ((\<lambda>_. SimpleVector_default)(1 := \<lparr>items_m = [1, 2, 3 :: int], size_m = 3, capacity_m = 3\<rparr>)) 1) = 0
   \<and> GetCapacity (move_assign (0::nat) 1
     ((\<lambda>_. SimpleVector_default)(1 := \<lparr>items_m = [1, 2, 3 :: int], size_m = 3, capacity_m = 3\<rparr>)) 1) = 0"
  using move_leaves_source_empty [of "\<lparr>items_m = [1, 2, 3 :: int], size_m = 3, capacity_m = 3\<rparr>" "0::nat" 1
     "(\<lambda>_. SimpleVector_default)(1 := \<lparr>items_m = [1, 2, 3 :: int], size_m = 3, capacity_m = 3\<rparr>)"]
  by (simp add: GetSize_def GetCapacity_def)

text \<open>
  Claim C7. For every target, copy assignment from an empty source returns, sets the
  size of the target to 0 and leaves its capacity and its buffer as they were: nothing
  is allocated.
\<close>

theorem copy_assign_from_empty:
  assumes "IsEmpty (s rhs)"
  shows "\<exists>s'. copy_assign this rhs s = Inr s'
           \<and> GetSize (s' this) = 0
           \<and> GetCapacity (s' this) = GetCapacity (s this)
           \<and> items_m (s' this) = items_m (s this)"
  using assms
  by (auto simp: copy_assign_def Clear_def GetSize_def GetCapacity_def IsEmpty_def)

theorem copy_assign_from_empty_witness:
  "\<exists>s'. copy_assign (0::nat) 1
      ((\<lambda>_. SimpleVector_default)(0 := \<lparr>items_m = [1, 2, 3 :: int], size_m = 3, capacity_m = 3\<rparr>)) = Inr s'
     \<and> GetSize (s' 0) = 0 \<and> GetCapacity (s' 0) = 3 \<and> items_m (s' 0) = [1, 2, 3]"
proof -
  let ?s = "(\<lambda>_. SimpleVector_default)(0::nat := \<lparr>items_m = [1, 2, 3 :: int], size_m = 3, capacity_m = 3\<rparr>)"
  have e: "IsEmpty (?s (1::nat))" by (simp add: IsEmpty_def SimpleVector_default_def)
  show ?thesis
    using copy_assign_from_empty[of ?s 1 0] e by (simp add: GetCapacity_def)
qed

text \<open>
  Claim C8. Copy assignment of an object to itself returns and changes nothing: the
  object keeps its size, its capacity and its elements, and so does every other object.
\<close>

theorem copy_self_assignment:
  "copy_assign a a s = Inr s"
  by (simp add: copy_assign_def)

text \<open>
  Claim C10. Move assignment of an object to itself changes nothing, although the
  operator has no guard for it: the buffer's move assignment swaps the raw pointer with
  itself, and \<^verbatim>\<open>std::exchange\<close> returns the old size (capacity) after setting the
  member to 0, which is then stored back.
\<close>

theorem move_self_assignment:
  "move_assign a a s = s"
  by (simp add: move_assign_def std_swap_def std_exchange_def put_items_def put_size_def
        put_capacity_def Let_def fun_eq_iff)

section \<open>A concrete run\<close>

text \<open>
  Claim C6. From an empty vector, \<^verbatim>\<open>PushBack\<close> of 1, 2 and 3 gives size 3 and the
  elements \<open>[1, 2, 3]\<close>; \<^verbatim>\<open>Insert\<close> of 99 at \<^verbatim>\<open>begin() + 1\<close> gives \<open>[1, 99, 2, 3]\<close>
  with size 4; \<^verbatim>\<open>Erase\<close> at \<^verbatim>\<open>begin() + 1\<close> gives \<open>[1, 2, 3]\<close> with size 3;
  \<^verbatim>\<open>Resize(5)\<close> gives \<open>[1, 2, 3, 0, 0]\<close> with size 5 and capacity at least 5 (it
  is 8); \<^verbatim>\<open>Clear\<close> gives size 0 with the capacity unchanged; \<^verbatim>\<open>Reserve(10)\<close> on the
  cleared vector, and on a new empty vector, gives capacity 10 and size 0.
\<close>

theorem push_insert_erase_resize_run:
  "PushBack SimpleVector_default (1::int) = Inr \<lparr>items_m = [1], size_m = 1, capacity_m = 1\<rparr>
   \<and> PushBack \<lparr>items_m = [1::int], size_m = 1, capacity_m = 1\<rparr> 2
       = Inr \<lparr>items_m = [1, 2], size_m = 2, capacity_m = 2\<rparr>
   \<and> PushBack \<lparr>items_m = [1, 2 :: int], size_m = 2, capacity_m = 2\<rparr> 3
       = Inr \<lparr>items_m = [1, 2, 3, 0], size_m = 3, capacity_m = 4\<rparr>
   \<and> GetSize \<lparr>items_m = [1, 2, 3, 0 :: int], size_m = 3, capacity_m = 4\<rparr> = 3
   \<and> elements \<lparr>items_m = [1, 2, 3, 0 :: int], size_m = 3, capacity_m = 4\<rparr> = [1, 2, 3]
   \<and> Insert \<lparr>items_m = [1, 2, 3, 0 :: int], size_m = 3, capacity_m = 4\<rparr> 1 99
       = Inr (\<lparr>items_m = [1, 99, 2, 3], size_m = 4, capacity_m = 4\<rparr>, 1)
   \<and> elements \<lparr>items_m = [1, 99, 2, 3 :: int], size_m = 4, capacity_m = 4\<rparr> = [1, 99, 2, 3]
   \<and> Erase \<lparr>items_m = [1, 99, 2, 3 :: int], size_m = 4, capacity_m = 4\<rparr> 1
       = Inr (\<lparr>items_m = [1, 2, 3, 3], size_m = 3, capacity_m = 4\<rparr>, 1)
   \<and> elements \<lparr>items_m = [1, 2, 3, 3 :: int], size_m = 3, capacity_m = 4\<rparr> = [1, 2, 3]
   \<and> Resize \<lparr>items_m = [1, 2, 3, 3 :: int], size_m = 3, capacity_m = 4\<rparr> 5
       = Inr \<lparr>items_m = [1, 2, 3, 0, 0, 0, 0, 0], size_m = 5, capacity_m = 8\<rparr>
   \<and> elements \<lparr>items_m = [1, 2, 3, 0, 0, 0, 0, 0 :: int], size_m = 5, capacity_m = 8\<rparr>
       = [1, 2, 3, 0, 0]
   \<and> 5 \<le> GetCapacity \<lparr>items_m = [1, 2, 3, 0, 0, 0, 0, 0 :: int], size_m = 5, capacity_m = 8\<rparr>
   \<and> Clear \<lparr>items_m = [1, 2, 3, 0, 0, 0, 0, 0 :: int], size_m = 5, capacity_m = 8\<rparr>
       = \<lparr>items_m = [1, 2, 3, 0, 0, 0, 0, 0], size_m = 0, capacity_m = 8\<rparr>
   \<and> Reserve \<lparr>items_m = [1, 2, 3, 0, 0, 0, 0, 0 :: int], size_m = 0, capacity_m = 8\<rparr> 10
       = Inr \<lparr>items_m = [0, 0, 0, 0, 0, 0, 0, 0, 0, 0], size_m = 0, capacity_m = 10\<rparr>
   \<and> Reserve (SimpleVector_default :: int SimpleVector) 10
       = Inr \<lparr>items_m = [0, 0, 0, 0, 0, 0, 0, 0, 0, 0], size_m = 0, capacity_m = 10\<rparr>"
  by (simp add: PushBack_eq Insert_eq Erase_eq Resize_eq Reserve_eq well_formed_def
        PTRDIFF_MAX_def SimpleVector_default_def GetSize_def GetCapacity_def elements_def
        Clear_def default_int_def)
     (simp add: numeral_eq_Suc)

section \<open>Comparison operators\<close>

lemma std_equal_eq:
  "first1 \<le> last1 \<Longrightarrow> last1 \<le> length p1 \<Longrightarrow> first2 + (last1 - first1) \<le> length p2 \<Longrightarrow>
   std_equal p1 first1 last1 p2 first2 =
     Inr (take (last1 - first1) (drop first1 p1) = take (last1 - first1) (drop first2 p2))"
proof (induction "last1 - first1" arbitrary: first1 first2)
  case 0
  then show ?case by (simp add: std_equal.simps)
next
  case (Suc n)
  from Suc.hyps(2) Suc.prems
  have lt: "first1 < last1" "first1 < length p1" "first2 < length p2" by auto
  have n: "n = last1 - Suc first1" using Suc.hyps(2) by simp
  have d: "last1 - first1 = Suc (last1 - Suc first1)" using lt by arith
  have h1: "take (last1 - first1) (drop first1 p1)
      = p1 ! first1 # take (last1 - Suc first1) (drop (Suc first1) p1)"
    using lt by (metis Cons_nth_drop_Suc d take_Suc_Cons)
  have h2: "take (last1 - first1) (drop first2 p2)
      = p2 ! first2 # take (last1 - Suc first1) (drop (Suc first2) p2)"
    using lt by (metis Cons_nth_drop_Suc d take_Suc_Cons)
  have rest: "std_equal p1 (Suc first1) last1 p2 (Suc first2)
      = Inr (take (last1 - Suc first1) (drop (Suc first1) p1)
             = take (last1 - Suc first1) (drop (Suc first2) p2))"
    by (rule Suc.hyps(1)) (use n lt Suc.prems in simp_all)
  show ?case
    using lt by (subst std_equal.simps) (simp add: deref_def rest h1 h2)
qed

lemma std_lexicographical_compare_eq:
  fixes p1 :: "'a::linorder list"
  shows "first1 \<le> last1 \<Longrightarrow> last1 \<le> length p1 \<Longrightarrow> first2 \<le> last2 \<Longrightarrow> last2 \<le> length p2 \<Longrightarrow>
   std_lexicographical_compare p1 first1 last1 p2 first2 last2 =
     Inr ((take (last1 - first1) (drop first1 p1), take (last2 - first2) (drop first2 p2))
          \<in> lexord {(x, y). x < y})"
proof (induction "last1 - first1" arbitrary: first1 first2)
  case 0
  have "take (last2 - first2) (drop first2 p2) \<noteq> [] \<longleftrightarrow> first2 \<noteq> last2"
    using "0.prems" by auto
  then have "(\<exists>y ys. take (last2 - first2) (drop first2 p2) = y # ys) \<longleftrightarrow> first2 \<noteq> last2"
    unfolding neq_Nil_conv .
  then show ?case using 0
    by (subst std_lexicographical_compare.simps) simp
next
  case (Suc n)
  from Suc.hyps(2) Suc.prems
  have lt: "first1 < last1" "first1 < length p1" by auto
  have n: "n = last1 - Suc first1" using Suc.hyps(2) by simp
  have d1: "last1 - first1 = Suc (last1 - Suc first1)" using lt by arith
  have h1: "take (last1 - first1) (drop first1 p1)
      = p1 ! first1 # take (last1 - Suc first1) (drop (Suc first1) p1)"
    using lt by (metis Cons_nth_drop_Suc d1 take_Suc_Cons)
  show ?case
  proof (cases "first2 = last2")
    case True
    then show ?thesis using lt
      by (subst std_lexicographical_compare.simps) (simp add: h1)
  next
    case False
    then have lt2: "first2 < last2" "first2 < length p2" using Suc.prems by auto
    have d2: "last2 - first2 = Suc (last2 - Suc first2)" using lt2 by arith
    have h2: "take (last2 - first2) (drop first2 p2)
        = p2 ! first2 # take (last2 - Suc first2) (drop (Suc first2) p2)"
      using lt2 by (metis Cons_nth_drop_Suc d2 take_Suc_Cons)
    have rest: "std_lexicographical_compare p1 (Suc first1) last1 p2 (Suc first2) last2
        = Inr ((take (last1 - Suc first1) (drop (Suc first1) p1),
                take (last2 - Suc first2) (drop (Suc first2) p2)) \<in> lexord {(x, y). x < y})"
      by (rule Suc.hyps(1)) (use n lt lt2 Suc.prems in simp_all)
    show ?thesis
      using lt lt2
      by (subst std_lexicographical_compare.simps) (auto simp: deref_def rest h1 h2)
  qed
qed

lemma operator_eq_eq:
  assumes "well_formed a" and "well_formed b"
  shows "operator_eq a b = Inr (size_m a = size_m b \<and> elements a = elements b)"
  using assms
  by (simp add: operator_eq_def GetSize_def std_equal_eq well_formed_def elements_def)

lemma operator_less_eq:
  fixes a :: "'a::linorder SimpleVector"
  assumes "well_formed a" and "well_formed b"
  shows "operator_less a b = Inr ((elements a, elements b) \<in> lexord {(x, y). x < y})"
  using assms
  by (simp add: operator_less_def std_lexicographical_compare_eq well_formed_def elements_def)

lemma elements_eq_iff:
  assumes "well_formed a" and "well_formed b"
  shows "size_m a = size_m b \<and> elements a = elements b
     \<longleftrightarrow> size_m a = size_m b \<and> (\<forall>i < size_m a. elements a ! i = elements b ! i)"
  using assms
  by (auto simp: list_eq_iff_nth_eq elements_def well_formed_def min_absorb2)

text \<open>
  Claim C9. On well-formed vectors of linearly ordered elements: \<^verbatim>\<open>==\<close> is true iff
  the sizes are equal and the elements are equal position by position; \<^verbatim>\<open><\<close> is the
  lexicographic order of the element sequences; \<^verbatim>\<open>!=\<close> is the negation of \<^verbatim>\<open>==\<close>,
  \<^verbatim>\<open>a > b\<close> is \<^verbatim>\<open>b < a\<close>, \<^verbatim>\<open>a <= b\<close> is the negation of \<^verbatim>\<open>b < a\<close> and \<^verbatim>\<open>a >= b\<close> the
  negation of \<^verbatim>\<open>a < b\<close>. In particular \<open>[1, 2, 3] < [1, 2, 4]\<close>, \<open>[1, 2] < [1, 2, 3]\<close>
  and \<open>[1, 2, 3] == [1, 2, 3]\<close>.
\<close>

theorem comparison_operators:
  fixes a b :: "'a::linorder SimpleVector"
  assumes "well_formed a" and "well_formed b"
  shows "operator_eq a b
           = Inr (GetSize a = GetSize b \<and> (\<forall>i < GetSize a. elements a ! i = elements b ! i))
     \<and> operator_less a b = Inr ((elements a, elements b) \<in> lexord {(x, y). x < y})
     \<and> (\<exists>eq lt gt. operator_eq a b = Inr eq \<and> operator_less a b = Inr lt
            \<and> operator_less b a = Inr gt
            \<and> operator_neq a b = Inr (\<not> eq) \<and> operator_greater a b = Inr gt
            \<and> operator_le a b = Inr (\<not> gt) \<and> operator_ge a b = Inr (\<not> lt))
     \<and> operator_less \<lparr>items_m = [1, 2, 3 :: int], size_m = 3, capacity_m = 3\<rparr>
                      \<lparr>items_m = [1, 2, 4], size_m = 3, capacity_m = 3\<rparr> = Inr True
     \<and> operator_less \<lparr>items_m = [1, 2 :: int], size_m = 2, capacity_m = 2\<rparr>
                      \<lparr>items_m = [1, 2, 3], size_m = 3, capacity_m = 3\<rparr> = Inr True
     \<and> operator_eq \<lparr>items_m = [1, 2, 3 :: int], size_m = 3, capacity_m = 3\<rparr>
                    \<lparr>items_m = [1, 2, 3], size_m = 3, capacity_m = 3\<rparr> = Inr True"
proof -
  have eq: "operator_eq a b
           = Inr (GetSize a = GetSize b \<and> (\<forall>i < GetSize a. elements a ! i = elements b ! i))"
    using elements_eq_iff[OF assms] by (simp add: operator_eq_eq[OF assms] GetSize_def)
  have lt: "operator_less a b = Inr ((elements a, elements b) \<in> lexord {(x, y). x < y})"
    by (rule operator_less_eq[OF assms])
  have gt: "operator_less b a = Inr ((elements b, elements a) \<in> lexord {(x, y). x < y})"
    by (rule operator_less_eq[OF assms(2,1)])
  have derived: "\<exists>eq lt gt. operator_eq a b = Inr eq \<and> operator_less a b = Inr lt
            \<and> operator_less b a = Inr gt
            \<and> operator_neq a b = Inr (\<not> eq) \<and> operator_greater a b = Inr gt
            \<and> operator_le a b = Inr (\<not> gt) \<and> operator_ge a b = Inr (\<not> lt)"
    by (simp add: operator_neq_def operator_greater_def operator_le_def operator_ge_def
          eq lt gt)
  have ex1: "operator_less \<lparr>items_m = [1, 2, 3 :: int], size_m = 3, capacity_m = 3\<rparr>
                      \<lparr>items_m = [1, 2, 4], size_m = 3, capacity_m = 3\<rparr> = Inr True"
    by (simp add: operator_less_eq well_formed_def PTRDIFF_MAX_def elements_def)
  have ex2: "operator_less \<lparr>items_m = [1, 2 :: int], size_m = 2, capacity_m = 2\<rparr>
                      \<lparr>items_m = [1, 2, 3], size_m = 3, capacity_m = 3\<rparr> = Inr True"
    by (simp add: operator_less_eq well_formed_def PTRDIFF_MAX_def elements_def)
  have ex3: "operator_eq \<lparr>items_m = [1, 2, 3 :: int], size_m = 3, capacity_m = 3\<rparr>
                    \<lparr>items_m = [1, 2, 3], size_m = 3, capacity_m = 3\<rparr> = Inr True"
    by (simp add: operator_eq_eq well_formed_def PTRDIFF_MAX_def elements_def)
  from eq lt derived ex1 ex2 ex3 show ?thesis by blast
qed

theorem comparison_operators_witness:
  "operator_eq \<lparr>items_m = [1, 2, 3 :: int], size_m = 3, capacity_m = 3\<rparr>
               \<lparr>items_m = [1, 2, 4], size_m = 3, capacity_m = 3\<rparr> = Inr False
   \<and> operator_less \<lparr>items_m = [1, 2, 3 :: int], size_m = 3, capacity_m = 3\<rparr>
                    \<lparr>items_m = [1, 2, 4], size_m = 3, capacity_m = 3\<rparr> = Inr True
   \<and> operator_ge \<lparr>items_m = [1, 2, 3 :: int], size_m = 3, capacity_m = 3\<rparr>
                  \<lparr>items_m = [1, 2, 4], size_m = 3, capacity_m = 3\<rparr> = Inr False"
proof -
  let ?a = "\<lparr>items_m = [1, 2, 3 :: int], size_m = 3, capacity_m = 3\<rparr>"
  let ?b = "\<lparr>items_m = [1, 2, 4 :: int], size_m = 3, capacity_m = 3\<rparr>"
  have wa: "well_formed ?a" and wb: "well_formed ?b"
    by (simp_all add: well_formed_def PTRDIFF_MAX_def)
  have "\<not> (\<forall>i<3. [1, 2, 3 :: int] ! i = [1, 2, 4] ! i)"
    by (auto intro: exI[of _ 2])
  then show ?thesis
    using comparison_operators[OF wa wb]
    by (auto simp: GetSize_def elements_def)
qed

end
